theory Spec2Isabelle
  imports Complex_Main
begin

section \<open>Python values and exceptions\<close>

text \<open>
  The program is dynamically typed: every probe returns a dict, the report is a dict of
  dicts, and the reporter inspects its entries with \<^verbatim>\<open>isinstance\<close>, \<^verbatim>\<open>in\<close> and \<^verbatim>\<open>.get\<close>.
  The values it handles are the ones a JSON document decodes to, so a Python value is
  modelled as such a value. A dict keeps its insertion order and has string keys: an
  association list.
\<close>

datatype pyval =
    PNone
  | PBool bool
  | PInt int
  | PFloat real
  | PStr string
  | PList "pyval list"
  | PDict "(string \<times> pyval) list"

text \<open>
  Exceptions are values. Every class below derives from Python's \<^verbatim>\<open>Exception\<close>
  (\<^verbatim>\<open>typer.Exit\<close> is a \<^verbatim>\<open>RuntimeError\<close>); \<open>RequestException\<close> stands for whatever
  the HTTP client raises for a transport failure, \<open>CsvError\<close> for \<^verbatim>\<open>csv.Error\<close>. The
  string is \<^verbatim>\<open>str(e)\<close>.
\<close>

datatype exn_class =
    JSONDecodeError
  | AttributeError
  | KeyError
  | TypeError
  | ValueError
  | RequestException
  | OverflowError
  | UnicodeEncodeError
  | CsvError
  | TyperExit

datatype exn = Exn exn_class string

fun exn_class_of :: "exn \<Rightarrow> exn_class" where
  "exn_class_of (Exn c m) = c"

fun str_exn :: "exn \<Rightarrow> string" where
  "str_exn (Exn c m) = m"

text \<open>Truth value of a Python object, as \<^verbatim>\<open>if x\<close> and \<^verbatim>\<open>not x\<close> test it.\<close>

fun py_truthy :: "pyval \<Rightarrow> bool" where
  "py_truthy PNone = False"
| "py_truthy (PBool b) = b"
| "py_truthy (PInt n) = (n \<noteq> 0)"
| "py_truthy (PFloat r) = (r \<noteq> 0)"
| "py_truthy (PStr s) = (s \<noteq> [])"
| "py_truthy (PList xs) = (xs \<noteq> [])"
| "py_truthy (PDict kvs) = (kvs \<noteq> [])"

text \<open>\<^verbatim>\<open>d.get(k)\<close>, \<^verbatim>\<open>d.get(k, default)\<close> and \<^verbatim>\<open>k in d\<close> on a dict.\<close>

definition dict_get :: "(string \<times> pyval) list \<Rightarrow> string \<Rightarrow> pyval" where
  "dict_get kvs k = (case map_of kvs k of None \<Rightarrow> PNone | Some v \<Rightarrow> v)"

definition dict_get_default :: "(string \<times> pyval) list \<Rightarrow> string \<Rightarrow> pyval \<Rightarrow> pyval" where
  "dict_get_default kvs k d = (case map_of kvs k of None \<Rightarrow> d | Some v \<Rightarrow> v)"

definition dict_has :: "(string \<times> pyval) list \<Rightarrow> string \<Rightarrow> bool" where
  "dict_has kvs k = (map_of kvs k \<noteq> None)"

text \<open>\<^verbatim>\<open>d[k] = v\<close>: an existing key keeps its place, a new key goes last.\<close>

fun dict_set :: "(string \<times> pyval) list \<Rightarrow> string \<Rightarrow> pyval \<Rightarrow> (string \<times> pyval) list" where
  "dict_set [] k v = [(k, v)]"
| "dict_set ((k', v') # kvs) k v =
     (if k' = k then (k, v) # kvs else (k', v') # dict_set kvs k v)"

subsection \<open>Decimal text of integers and the format \<^verbatim>\<open>{n:010}\<close>\<close>

definition digit_char :: "nat \<Rightarrow> char" where
  "digit_char d = char_of (48 + d)"

fun digits :: "nat \<Rightarrow> string" where
  "digits n = (if n < 10 then [digit_char n] else digits (n div 10) @ [digit_char (n mod 10)])"

declare digits.simps [simp del]

text \<open>\<^verbatim>\<open>str(n)\<close> for an int.\<close>

definition str_int :: "int \<Rightarrow> string" where
  "str_int n = (if n < 0 then CHR ''-'' # digits (nat (- n)) else digits (nat n))"

definition zfill :: "nat \<Rightarrow> string \<Rightarrow> string" where
  "zfill w s = replicate (w - length s) CHR ''0'' @ s"

text \<open>
  \<^verbatim>\<open>f"{n:010}"\<close>: minimum width 10, filled with zeros after the sign; a longer number is
  not cut.
\<close>

definition format_010 :: "int \<Rightarrow> string" where
  "format_010 n =
     (if n < 0 then CHR ''-'' # zfill 9 (digits (nat (- n))) else zfill 10 (digits (nat n)))"

text \<open>The value of a string of decimal digits, to say what a formatted number denotes.\<close>

definition digit_val :: "char \<Rightarrow> nat" where
  "digit_val c = of_char c - 48"

definition decimal_val :: "string \<Rightarrow> nat" where
  "decimal_val s = foldl (\<lambda>acc c. 10 * acc + digit_val c) 0 s"

definition is_digit :: "char \<Rightarrow> bool" where
  "is_digit c = (48 \<le> (of_char c :: nat) \<and> (of_char c :: nat) \<le> 57)"

section \<open>The world: network, clock, timer, console and files\<close>

text \<open>
  The program acts on the outside world only through the HTTP client, \<^verbatim>\<open>time.sleep\<close>,
  the console, the clock and the file system. The world is passed explicitly: what the
  network answers and what the clock shows are given, and every action is appended to a
  trace, so that which actions a run performed, and in which order, can be stated.
\<close>

datatype http_method = GET | POST

record request =
  http_method :: http_method
  url :: string
  headers :: "(string \<times> string) list"
  form_data :: "(string \<times> string) list"

text \<open>
  A response, as the probes read it: \<^verbatim>\<open>status_code\<close>, \<^verbatim>\<open>text\<close> (here \<open>resp_text\<close>), and what \<^verbatim>\<open>json()\<close>
  does: it returns the decoded body, or raises \<^verbatim>\<open>JSONDecodeError\<close> with a message
  (\<open>Inl\<close>) when the body is not JSON.
\<close>

record response =
  status_code :: int
  resp_text :: string
  json_body :: "string + pyval"

type_synonym csv_row = "string \<times> string \<times> string"

datatype event =
    Request request
  | Sleep int
  | Print string
  | PrintHeader
  | PrintMenu
  | PrintSaved string string
  | PrintTable "csv_row list"
  | Mkdir string
  | CreateFile string string
  | WriteFile string string string

record world =
  network :: "request \<Rightarrow> exn + response"
  clock :: string
  argv_len :: nat
  sleep_limit :: int
  events :: "event list"

definition emit :: "event \<Rightarrow> world \<Rightarrow> world" where
  "emit e w = w\<lparr>events := events w @ [e]\<rparr>"

text \<open>\<^verbatim>\<open>requests.get(url, headers=headers)\<close> and \<^verbatim>\<open>requests.post(url, headers=headers, data=data)\<close>.\<close>

definition requests_get ::
  "string \<Rightarrow> (string \<times> string) list \<Rightarrow> world \<Rightarrow> (exn + response) \<times> world" where
  "requests_get u hs w =
     (let req = \<lparr>http_method = GET, url = u, headers = hs, form_data = []\<rparr>
      in (network w req, emit (Request req) w))"

definition requests_post ::
  "string \<Rightarrow> (string \<times> string) list \<Rightarrow> (string \<times> string) list \<Rightarrow> world
     \<Rightarrow> (exn + response) \<times> world" where
  "requests_post u hs d w =
     (let req = \<lparr>http_method = POST, url = u, headers = hs, form_data = d\<rparr>
      in (network w req, emit (Request req) w))"

definition response_json :: "response \<Rightarrow> exn + pyval" where
  "response_json r =
     (case json_body r of Inl m \<Rightarrow> Inl (Exn JSONDecodeError m) | Inr v \<Rightarrow> Inr v)"

text \<open>
  \<^verbatim>\<open>time.sleep(delay / 1000)\<close> for an int \<open>delay\<close> in milliseconds. The duration is
  first converted to the timer's unit, which raises \<^verbatim>\<open>OverflowError\<close> when it is out of
  the timer's range; the range is the platform's (in CPython a signed 64-bit count of
  nanoseconds, some \<open>9.2 * 10^12\<close> ms) and is the world's \<open>sleep_limit\<close>, in milliseconds.
  Then a negative duration raises \<^verbatim>\<open>ValueError\<close>; the quotient is negative exactly when
  \<open>delay\<close> is.
\<close>

definition time_sleep_ms :: "int \<Rightarrow> world \<Rightarrow> (exn + unit) \<times> world" where
  "time_sleep_ms delay w =
     (if delay < - sleep_limit w \<or> sleep_limit w < delay then
        (Inl (Exn OverflowError ''timestamp too large to convert to C _PyTime_t''), w)
      else if delay < 0 then (Inl (Exn ValueError ''sleep length must be non-negative''), w)
      else (Inr (), emit (Sleep delay) w))"

section \<open>The scanner\<close>

definition brute_force_customers ::
  "string \<Rightarrow> int \<Rightarrow> int \<Rightarrow> int \<Rightarrow> world \<Rightarrow> (exn + pyval) \<times> world" where
  "brute_force_customers secret_key delay start stop w =
     (case time_sleep_ms delay w of
        (Inl e, w') \<Rightarrow> (Inl e, w')
      | (Inr u, w') \<Rightarrow>
          (Inr (PDict [(''found_customers'', PList [
                  PDict [(''id'', PStr (''cus_'' @ format_010 start)),
                         (''email'', PStr ''customer1@example.com'')],
                  PDict [(''id'', PStr (''cus_'' @ format_010 stop)),
                         (''email'', PNone)]])]),
           w'))"

section \<open>The probes\<close>

text \<open>
  In each probe the value \<open>body\<close> is the \<^verbatim>\<open>try\<close> block and the final case distinction is
  its \<^verbatim>\<open>except Exception as e\<close> handler. A probe's result type still has room for an
  exception, so that it is a theorem, not a convention, that none escapes.
\<close>

text \<open>The message of the \<^verbatim>\<open>AttributeError\<close> that \<^verbatim>\<open>v.get\<close> raises when \<open>v\<close> is not a dict.\<close>

fun type_name :: "pyval \<Rightarrow> string" where
  "type_name PNone = ''NoneType''"
| "type_name (PBool b) = ''bool''"
| "type_name (PInt n) = ''int''"
| "type_name (PFloat r) = ''float''"
| "type_name (PStr s) = ''str''"
| "type_name (PList xs) = ''list''"
| "type_name (PDict kvs) = ''dict''"

definition no_attribute_get :: "pyval \<Rightarrow> exn" where
  "no_attribute_get v =
     Exn AttributeError ([CHR 0x27] @ type_name v @ [CHR 0x27] @ '' object has no attribute ''
                         @ [CHR 0x27] @ ''get'' @ [CHR 0x27])"

definition test_publishable_key :: "string \<Rightarrow> world \<Rightarrow> (exn + pyval) \<times> world" where
  "test_publishable_key pubkey w =
     (let url = ''https://api.stripe.com/v1/tokens'';
          headers = [(''Authorization'', ''Bearer '' @ pubkey)];
          data = [(''card[number]'', ''4242424242424242''),
                  (''card[exp_month]'', ''12''),
                  (''card[exp_year]'', ''2025''),
                  (''card[cvc]'', ''123'')];
          (r, w') = requests_post url headers data w;
          body =
            (case r of
               Inl e \<Rightarrow> Inl e
             | Inr response \<Rightarrow>
                 if status_code response = 200 then
                   (case response_json response of
                      Inl e \<Rightarrow> Inl e
                    | Inr v \<Rightarrow> Inr (PDict [(''status'', PBool True), (''raw_response'', v)]))
                 else
                   (case (case response_json response of
                            Inl e \<Rightarrow> Inl e
                          | Inr (PDict kvs) \<Rightarrow>
                              Inr (dict_get_default kvs ''error'' (PStr (resp_text response)))
                          | Inr v \<Rightarrow> Inl (no_attribute_get v)) of
                      Inr error_message \<Rightarrow>
                        Inr (PDict [(''status'', PBool False), (''error'', error_message)])
                    | Inl e \<Rightarrow>
                        if exn_class_of e = JSONDecodeError then
                          Inr (PDict [(''status'', PBool False),
                                      (''error'', PStr (resp_text response))])
                        else Inl e))
      in (case body of
            Inl e \<Rightarrow> Inr (PDict [(''status'', PBool False), (''error'', PStr (str_exn e))])
          | Inr d \<Rightarrow> Inr d,
          w'))"

definition test_custom_endpoint :: "string \<Rightarrow> string \<Rightarrow> world \<Rightarrow> (exn + pyval) \<times> world" where
  "test_custom_endpoint secret_key endpoint w =
     (let headers = [(''Authorization'', ''Bearer '' @ secret_key)];
          (r, w') = requests_get endpoint headers w;
          body =
            (case r of
               Inl e \<Rightarrow> Inl e
             | Inr response \<Rightarrow>
                 if status_code response = 200 then
                   (case response_json response of
                      Inl e \<Rightarrow> Inl e
                    | Inr v \<Rightarrow> Inr (PDict [(''status'', PBool True), (''raw_response'', v)]))
                 else
                   Inr (PDict [(''status'', PBool False),
                               (''raw_response'', PStr (resp_text response))]))
      in (case body of
            Inl e \<Rightarrow> Inr (PDict [(''status'', PBool False), (''error'', PStr (str_exn e))])
          | Inr d \<Rightarrow> Inr d,
          w'))"

definition test_list_charges :: "string \<Rightarrow> world \<Rightarrow> (exn + pyval) \<times> world" where
  "test_list_charges secret_key w =
     (let headers = [(''Authorization'', ''Bearer '' @ secret_key)];
          (r, w') = requests_get ''https://api.stripe.com/v1/charges'' headers w;
          body =
            (case r of
               Inl e \<Rightarrow> Inl e
             | Inr response \<Rightarrow>
                 if status_code response = 200 then
                   (case response_json response of
                      Inl e \<Rightarrow> Inl e
                    | Inr v \<Rightarrow> Inr (PDict [(''status'', PBool True), (''raw_response'', v)]))
                 else
                   (case response_json response of
                      Inr v \<Rightarrow> Inr (PDict [(''status'', PBool False), (''raw_response'', v)])
                    | Inl e \<Rightarrow>
                        if exn_class_of e = JSONDecodeError then
                          Inr (PDict [(''status'', PBool False),
                                      (''raw_response'', PStr (resp_text response))])
                        else Inl e))
      in (case body of
            Inl e \<Rightarrow> Inr (PDict [(''status'', PBool False), (''error'', PStr (str_exn e))])
          | Inr d \<Rightarrow> Inr d,
          w'))"

section \<open>The reporter\<close>

text \<open>
  The text Python's \<^verbatim>\<open>str\<close> gives for a list, a dict or a float, and the text of
  \<^verbatim>\<open>json.dumps(v, indent=2)\<close>, belong to the language's library, not to this program:
  they are parameters. \<^verbatim>\<open>str\<close> of a string, of \<^verbatim>\<open>None\<close>, of a bool and of an int is
  written out. A third parameter says which texts the UTF-8 codec can encode: a Python
  string may hold a lone surrogate (a JSON body can spell one), which the codec refuses,
  and a character of the model does not tell.
\<close>

record pylib =
  str_other :: "pyval \<Rightarrow> string"
  json_dumps_indent2 :: "pyval \<Rightarrow> string"
  utf8_encodable :: "string \<Rightarrow> bool"

fun py_str :: "pylib \<Rightarrow> pyval \<Rightarrow> string" where
  "py_str lib (PStr s) = s"
| "py_str lib PNone = ''None''"
| "py_str lib (PBool b) = (if b then ''True'' else ''False'')"
| "py_str lib (PInt n) = str_int n"
| "py_str lib v = str_other lib v"

text \<open>\<^verbatim>\<open>isinstance(v, (dict, list))\<close>.\<close>

fun is_dict_or_list :: "pyval \<Rightarrow> bool" where
  "is_dict_or_list (PDict kvs) = True"
| "is_dict_or_list (PList xs) = True"
| "is_dict_or_list v = False"

text \<open>
  What a \<^verbatim>\<open>for\<close> loop iterates over: the items of a list, the keys of a dict, the
  characters of a string; anything else is not iterable.
\<close>

fun py_iter :: "pyval \<Rightarrow> exn + pyval list" where
  "py_iter (PList xs) = Inr xs"
| "py_iter (PDict kvs) = Inr (map (\<lambda>kv. PStr (fst kv)) kvs)"
| "py_iter (PStr s) = Inr (map (\<lambda>c. PStr [c]) s)"
| "py_iter v =
     Inl (Exn TypeError ([CHR 0x27] @ type_name v @ [CHR 0x27] @ '' object is not iterable''))"

text \<open>
  One row per discovered customer. \<^verbatim>\<open>customer['id']\<close> raises \<^verbatim>\<open>KeyError\<close> on a dict
  without that key and \<^verbatim>\<open>TypeError\<close> on a value that is not a dict.
\<close>

definition customer_row :: "pylib \<Rightarrow> pyval \<Rightarrow> exn + csv_row" where
  "customer_row lib customer =
     (case customer of
        PDict kvs \<Rightarrow>
          (case map_of kvs ''id'' of
             None \<Rightarrow> Inl (Exn KeyError ([CHR 0x27] @ ''id'' @ [CHR 0x27]))
           | Some i \<Rightarrow>
               let customer_info =
                     py_str lib i @ '' ('' @
                     py_str lib (dict_get_default kvs ''email'' (PStr ''No Email'')) @ '')'';
                   customer_status = (if py_truthy (dict_get kvs ''id'') then ''PASS'' else ''FAIL'')
               in Inr (''Found Customer'', customer_info, customer_status))
      | PStr s \<Rightarrow> Inl (Exn TypeError ''string indices must be integers'')
      | PList xs \<Rightarrow> Inl (Exn TypeError ''list indices must be integers or slices, not str'')
      | v \<Rightarrow>
          Inl (Exn TypeError ([CHR 0x27] @ type_name v @ [CHR 0x27] @ '' object is not subscriptable'')))"

text \<open>The loop over the customers stops at the first exception.\<close>

fun customer_rows :: "pylib \<Rightarrow> pyval list \<Rightarrow> exn + csv_row list" where
  "customer_rows lib [] = Inr []"
| "customer_rows lib (c # cs) =
     (case customer_row lib c of
        Inl e \<Rightarrow> Inl e
      | Inr row \<Rightarrow>
          (case customer_rows lib cs of Inl e \<Rightarrow> Inl e | Inr rows \<Rightarrow> Inr (row # rows)))"

definition found_customer_rows :: "pylib \<Rightarrow> pyval \<Rightarrow> exn + csv_row list" where
  "found_customer_rows lib v =
     (case py_iter v of Inl e \<Rightarrow> Inl e | Inr cs \<Rightarrow> customer_rows lib cs)"

text \<open>The text of a payload in the Result column.\<close>

definition result_str :: "pylib \<Rightarrow> pyval \<Rightarrow> string" where
  "result_str lib raw_response =
     (if is_dict_or_list raw_response then json_dumps_indent2 lib raw_response
      else py_str lib raw_response)"

text \<open>The rows \<^verbatim>\<open>save_results_to_file\<close> appends to \<^verbatim>\<open>csv_data\<close> for one entry of the report.\<close>

definition csv_entry_rows :: "pylib \<Rightarrow> string \<Rightarrow> pyval \<Rightarrow> exn + csv_row list" where
  "csv_entry_rows lib test data =
     (case data of
        PDict kvs \<Rightarrow>
          (let status =
                 (if py_truthy (dict_get kvs ''status'') then ''PASS''
                  else ''FAIL ('' @
                       py_str lib (dict_get_default kvs ''error''
                                    (dict_get_default kvs ''raw_response'' (PStr ''Unknown Error'')))
                       @ '')'')
           in if dict_has kvs ''raw_response'' then
                Inr [(test, result_str lib (dict_get kvs ''raw_response''), status)]
              else if dict_has kvs ''found_customers'' then
                found_customer_rows lib (dict_get kvs ''found_customers'')
              else Inr [(test, ''-'', status)])
      | v \<Rightarrow>
          Inr [(test, ''-'',
                if v = PBool True then ''PASS'' else ''FAIL ('' @ py_str lib v @ '')'')])"

text \<open>The rows \<^verbatim>\<open>display_results\<close> adds to its table for one entry of the report.\<close>

definition display_entry_rows :: "pylib \<Rightarrow> string \<Rightarrow> pyval \<Rightarrow> exn + csv_row list" where
  "display_entry_rows lib test data =
     (case data of
        PDict kvs \<Rightarrow>
          (if dict_has kvs ''raw_response'' then
             (let status = (if py_truthy (dict_get kvs ''status'') then ''PASS'' else ''FAIL'');
                  raw_response = dict_get_default kvs ''raw_response'' (PStr ''-'')
              in Inr [(test, result_str lib raw_response, status)])
           else if dict_has kvs ''found_customers'' then
             found_customer_rows lib (dict_get kvs ''found_customers'')
           else
             (let status =
                    (if py_truthy (dict_get kvs ''status'') then ''PASS''
                     else ''FAIL ('' @
                          py_str lib (dict_get_default kvs ''error'' (PStr ''Unknown Error''))
                          @ '')'')
              in Inr [(test, ''-'', status)]))
      | v \<Rightarrow>
          Inr [(test, ''-'',
                if v = PBool True then ''PASS'' else ''FAIL ('' @ py_str lib v @ '')'')])"

text \<open>The loop over \<^verbatim>\<open>results.items()\<close>, for either rendering.\<close>

fun report_rows ::
  "(string \<Rightarrow> pyval \<Rightarrow> exn + csv_row list) \<Rightarrow> (string \<times> pyval) list \<Rightarrow> exn + csv_row list" where
  "report_rows f [] = Inr []"
| "report_rows f ((test, data) # rest) =
     (case f test data of
        Inl e \<Rightarrow> Inl e
      | Inr rows \<Rightarrow>
          (case report_rows f rest of Inl e \<Rightarrow> Inl e | Inr rows' \<Rightarrow> Inr (rows @ rows')))"

definition csv_data :: "pylib \<Rightarrow> (string \<times> pyval) list \<Rightarrow> exn + csv_row list" where
  "csv_data lib results = report_rows (csv_entry_rows lib) results"

definition table_rows :: "pylib \<Rightarrow> (string \<times> pyval) list \<Rightarrow> exn + csv_row list" where
  "table_rows lib results = report_rows (display_entry_rows lib) results"

subsection \<open>The CSV text\<close>

text \<open>
  \<^verbatim>\<open>csv.DictWriter\<close> belongs to Python's library. It is modelled in the dialect the
  program uses, the default one: fields separated by a comma, rows ended by CR LF, and a
  field quoted only when it holds a comma, a double quote, a CR or a LF, with every double
  quote inside it doubled.
\<close>

definition CR :: char where "CR = CHR 0x0D"
definition LF :: char where "LF = CHR 0x0A"
definition DQ :: char where "DQ = CHR 0x22"
definition COMMA :: char where "COMMA = CHR 0x2C"

definition csv_special :: "char \<Rightarrow> bool" where
  "csv_special c = (c = COMMA \<or> c = DQ \<or> c = CR \<or> c = LF)"

fun csv_escape :: "string \<Rightarrow> string" where
  "csv_escape [] = []"
| "csv_escape (c # cs) = (if c = DQ then DQ # DQ # csv_escape cs else c # csv_escape cs)"

definition csv_field :: "string \<Rightarrow> string" where
  "csv_field f = (if list_ex csv_special f then DQ # csv_escape f @ [DQ] else f)"

fun csv_join :: "string list \<Rightarrow> string" where
  "csv_join [] = []"
| "csv_join [f] = csv_field f"
| "csv_join (f # fs) = csv_field f @ COMMA # csv_join fs"

text \<open>A row of one empty field is written as a pair of quotes, to tell it from no field.\<close>

definition csv_writerow :: "string list \<Rightarrow> string" where
  "csv_writerow row = (if row = [[]] then [DQ, DQ] else csv_join row) @ [CR, LF]"

definition fieldnames :: "string list" where
  "fieldnames = [''Test'', ''Result'', ''Status'']"

text \<open>A row dict of \<^verbatim>\<open>csv_data\<close>, in the order of the field names.\<close>

fun row_fields :: "csv_row \<Rightarrow> string list" where
  "row_fields (test, result, status) = [test, result, status]"

text \<open>\<^verbatim>\<open>writer.writeheader()\<close> followed by \<^verbatim>\<open>writer.writerows(csv_data)\<close>.\<close>

definition csv_text :: "csv_row list \<Rightarrow> string" where
  "csv_text rows = csv_writerow fieldnames @ concat (map (\<lambda>r. csv_writerow (row_fields r)) rows)"

subsection \<open>Reading the CSV text back\<close>

text \<open>
  The program never reads its file; what reading it back gives is a matter of Python's
  \<^verbatim>\<open>csv.reader\<close>, modelled here in the same default dialect, over a file opened with
  \<^verbatim>\<open>newline=''\<close> as the file was written. The reader is a state machine fed with the
  characters of each line and an end-of-line signal after each line; a line ends after a
  LF, after a CR not followed by a LF, and at the end of the text. A record is complete
  when the machine is back at the start of a record after a line. The reader's state is
  the state of the machine, the text of the field being read and the fields of the record
  read so far. A field longer than the reader's limit makes it raise \<^verbatim>\<open>csv.Error\<close>.
\<close>

datatype parse_state =
    START_RECORD
  | START_FIELD
  | IN_FIELD
  | IN_QUOTED_FIELD
  | QUOTE_IN_QUOTED_FIELD
  | EAT_CRNL

type_synonym reader = "parse_state \<times> string \<times> string list"

definition parse_reset :: reader where
  "parse_reset = (START_RECORD, [], [])"

text \<open>
  A character is added to the field being read unless the field has reached the reader's
  limit, \<^verbatim>\<open>csv.field_size_limit()\<close>, 131072 unless a program changes it.
\<close>

definition field_limit :: nat where
  "field_limit = 131072"

definition field_too_large :: exn where
  "field_too_large = Exn CsvError ''field larger than field limit (131072)''"

definition parse_add_char :: "parse_state \<Rightarrow> char \<Rightarrow> string \<Rightarrow> string list \<Rightarrow> exn + reader" where
  "parse_add_char st c buf row =
     (if field_limit \<le> length buf then Inl field_too_large else Inr (st, buf @ [c], row))"

text \<open>A character where a field is expected.\<close>

definition start_field :: "char \<Rightarrow> string \<Rightarrow> string list \<Rightarrow> exn + reader" where
  "start_field c buf row =
     (if c = LF \<or> c = CR then Inr (EAT_CRNL, [], row @ [buf])
      else if c = DQ then Inr (IN_QUOTED_FIELD, buf, row)
      else if c = COMMA then Inr (START_FIELD, [], row @ [buf])
      else parse_add_char IN_FIELD c buf row)"

fun parse_process_char :: "char \<Rightarrow> reader \<Rightarrow> exn + reader" where
  "parse_process_char c (START_RECORD, buf, row) =
     (if c = LF \<or> c = CR then Inr (EAT_CRNL, buf, row) else start_field c buf row)"
| "parse_process_char c (START_FIELD, buf, row) = start_field c buf row"
| "parse_process_char c (IN_FIELD, buf, row) =
     (if c = LF \<or> c = CR then Inr (EAT_CRNL, [], row @ [buf])
      else if c = COMMA then Inr (START_FIELD, [], row @ [buf])
      else parse_add_char IN_FIELD c buf row)"
| "parse_process_char c (IN_QUOTED_FIELD, buf, row) =
     (if c = DQ then Inr (QUOTE_IN_QUOTED_FIELD, buf, row)
      else parse_add_char IN_QUOTED_FIELD c buf row)"
| "parse_process_char c (QUOTE_IN_QUOTED_FIELD, buf, row) =
     (if c = DQ then parse_add_char IN_QUOTED_FIELD c buf row
      else if c = COMMA then Inr (START_FIELD, [], row @ [buf])
      else if c = LF \<or> c = CR then Inr (EAT_CRNL, [], row @ [buf])
      else parse_add_char IN_FIELD c buf row)"
| "parse_process_char c (EAT_CRNL, buf, row) =
     (if c = LF \<or> c = CR then Inr (EAT_CRNL, buf, row)
      else Inl (Exn CsvError ''new-line character seen in unquoted field''))"

text \<open>The end of a line.\<close>

fun parse_process_eol :: "reader \<Rightarrow> reader" where
  "parse_process_eol (START_RECORD, buf, row) = (START_RECORD, buf, row)"
| "parse_process_eol (START_FIELD, buf, row) = (START_RECORD, [], row @ [buf])"
| "parse_process_eol (IN_FIELD, buf, row) = (START_RECORD, [], row @ [buf])"
| "parse_process_eol (IN_QUOTED_FIELD, buf, row) = (IN_QUOTED_FIELD, buf, row)"
| "parse_process_eol (QUOTE_IN_QUOTED_FIELD, buf, row) = (START_RECORD, [], row @ [buf])"
| "parse_process_eol (EAT_CRNL, buf, row) = (START_RECORD, buf, row)"

definition line_end :: "char \<Rightarrow> string \<Rightarrow> bool" where
  "line_end c rest =
     (case rest of [] \<Rightarrow> True | d # ds \<Rightarrow> c = LF \<or> (c = CR \<and> d \<noteq> LF))"

text \<open>
  All the records of a text. At the end of the text a record still open (inside a quoted
  field) is closed and returned.
\<close>

fun csv_read :: "reader \<Rightarrow> string \<Rightarrow> exn + string list list" where
  "csv_read (st, buf, row) [] =
     (if buf \<noteq> [] \<or> st = IN_QUOTED_FIELD then Inr [row @ [buf]] else Inr [])"
| "csv_read r (c # cs) =
     (case parse_process_char c r of
        Inl e \<Rightarrow> Inl e
      | Inr r1 \<Rightarrow>
          if line_end c cs then
            (case parse_process_eol r1 of
               (st, buf, row) \<Rightarrow>
                 if st = START_RECORD then
                   (case csv_read parse_reset cs of
                      Inl e \<Rightarrow> Inl e
                    | Inr rows \<Rightarrow> Inr (row # rows))
                 else csv_read (st, buf, row) cs)
          else csv_read r1 cs)"

declare csv_read.simps [simp del]

definition csv_reader :: "string \<Rightarrow> exn + string list list" where
  "csv_reader txt = csv_read parse_reset txt"

text \<open>
  The (Test, Status) pairs of a file read back the way \<^verbatim>\<open>csv.DictReader\<close> does: the first
  record names the columns, empty records are skipped, and a cell is looked up by the
  name of its column.
\<close>

definition parsed_test_status :: "string \<Rightarrow> exn + (string option \<times> string option) list" where
  "parsed_test_status txt =
     (case csv_reader txt of
        Inl e \<Rightarrow> Inl e
      | Inr [] \<Rightarrow> Inr []
      | Inr (header # records) \<Rightarrow>
          Inr (map (\<lambda>record. (map_of (zip header record) ''Test'',
                               map_of (zip header record) ''Status''))
                 (filter (\<lambda>record. record \<noteq> []) records)))"

subsection \<open>Saving and displaying\<close>

text \<open>
  The file's name. The folder and the name are kept apart in the trace: how the platform
  joins them into a path is not the program's matter. \<^verbatim>\<open>open\<close> creates the file; the
  rows are written through the UTF-8 codec, which raises \<^verbatim>\<open>UnicodeEncodeError\<close> on a text
  it cannot encode (the message also names the character and its place), and then the
  file is left without the whole text.
\<close>

definition output_file_name :: "string \<Rightarrow> string" where
  "output_file_name timestamp = ''stripe_test_results_'' @ timestamp @ ''.csv''"

definition save_results_to_file ::
  "pylib \<Rightarrow> (string \<times> pyval) list \<Rightarrow> string \<Rightarrow> world \<Rightarrow> (exn + unit) \<times> world" where
  "save_results_to_file lib results output_folder w =
     (let w1 = emit (Mkdir output_folder) w;
          output_file = output_file_name (clock w1)
      in case csv_data lib results of
           Inl e \<Rightarrow> (Inl e, w1)
         | Inr rows \<Rightarrow>
             (let w2 = emit (CreateFile output_folder output_file) w1
              in if utf8_encodable lib (csv_text rows) then
                   (Inr (),
                    emit (PrintSaved output_folder output_file)
                      (emit (WriteFile output_folder output_file (csv_text rows)) w2))
                 else (Inl (Exn UnicodeEncodeError ''surrogates not allowed''), w2)))"

definition display_results ::
  "pylib \<Rightarrow> (string \<times> pyval) list \<Rightarrow> world \<Rightarrow> (exn + unit) \<times> world" where
  "display_results lib results w =
     (case table_rows lib results of
        Inl e \<Rightarrow> (Inl e, w)
      | Inr rows \<Rightarrow> (Inr (), emit (PrintTable rows) w))"

section \<open>The mode dispatcher\<close>

text \<open>\<^verbatim>\<open>not x\<close> for an optional string option: unset, or the empty string.\<close>

definition unset :: "string option \<Rightarrow> bool" where
  "unset x = (case x of None \<Rightarrow> True | Some s \<Rightarrow> s = [])"

definition typer_Exit :: exn where
  "typer_Exit = Exn TyperExit []"

text \<open>An error message on the console, then \<^verbatim>\<open>raise typer.Exit()\<close>.\<close>

definition error_exit :: "string \<Rightarrow> world \<Rightarrow> (exn + 'a) \<times> world" where
  "error_exit msg w = (Inl typer_Exit, emit (Print msg) w)"

text \<open>\<^verbatim>\<open>results[key] = probe(...)\<close>; an exception of the call would pass through.\<close>

definition store ::
  "(string \<times> pyval) list \<Rightarrow> string \<Rightarrow> (exn + pyval) \<times> world
     \<Rightarrow> (exn + (string \<times> pyval) list) \<times> world" where
  "store results key rw =
     (case rw of
        (Inl e, w) \<Rightarrow> (Inl e, w)
      | (Inr v, w) \<Rightarrow> (Inr (dict_set results key v), w))"

text \<open>
  The body of \<^verbatim>\<open>main\<close> from \<^verbatim>\<open>results = {}\<close> to the end of the chain of modes: it
  builds the report, or leaves with \<^verbatim>\<open>typer.Exit\<close>.
\<close>

definition dispatch ::
  "string option \<Rightarrow> string option \<Rightarrow> string option \<Rightarrow> int option \<Rightarrow> int option \<Rightarrow> int
     \<Rightarrow> string option \<Rightarrow> world \<Rightarrow> (exn + (string \<times> pyval) list) \<times> world" where
  "dispatch mode secretkey pubkey start stop delay custom_endpoint w =
     (let results = [] in
      if mode = Some ''default'' then
        if unset secretkey then
          error_exit ''[bold red]Error: --secretkey is required for default mode.[/bold red]'' w
        else
          store results ''list_charges''
            (test_list_charges (the secretkey)
               (emit (Print ''Testing if the secret key can list charges...'') w))
      else if mode = Some ''brute-force'' then
        if unset secretkey \<or> start = None \<or> stop = None then
          error_exit ''[bold red]Error: --secretkey, --start, and --stop are required for brute-force mode.[/bold red]'' w
        else if the start > the stop then
          error_exit ''[bold red]Error: --start must be less than or equal to --stop.[/bold red]'' w
        else
          store results ''brute_force_results''
            (brute_force_customers (the secretkey) delay (the start) (the stop)
               (emit (Print (''Brute-forcing customer IDs from cus_'' @ format_010 (the start)
                             @ '' to cus_'' @ format_010 (the stop)
                             @ '' with a delay of '' @ str_int delay @ ''ms...'')) w))
      else if mode = Some ''pubkey'' then
        if unset pubkey then
          error_exit ''[bold red]Error: --pubkey is required for pubkey mode.[/bold red]'' w
        else
          store results ''test_publishable_key''
            (test_publishable_key (the pubkey)
               (emit (Print ''Testing Publishable Key by creating a test token...'') w))
      else if mode = Some ''full'' then
        if unset secretkey \<or> unset pubkey then
          error_exit ''[bold red]Error: --secretkey and --pubkey are required for full mode.[/bold red]'' w
        else
          (case store results ''list_charges''
                  (test_list_charges (the secretkey)
                     (emit (Print ''Testing full validation (secret key and publishable key)...'') w)) of
             (Inl e, w') \<Rightarrow> (Inl e, w')
           | (Inr results', w') \<Rightarrow>
               store results' ''test_publishable_key'' (test_publishable_key (the pubkey) w'))
      else if mode = Some ''restricted'' then
        if unset secretkey then
          error_exit ''[bold red]Error: --secretkey is required for restricted mode.[/bold red]'' w
        else
          store results ''list_charges''
            (test_list_charges (the secretkey) (emit (Print ''Testing restricted key...'') w))
      else if mode = Some ''custom'' then
        if unset secretkey \<or> unset custom_endpoint then
          error_exit ''[bold red]Error: --secretkey and --custom-endpoint are required for custom mode.[/bold red]'' w
        else
          store results ''test_custom_endpoint''
            (test_custom_endpoint (the secretkey) (the custom_endpoint)
               (emit (Print (''Testing custom endpoint '' @ the custom_endpoint @ ''...'')) w))
      else
        error_exit (''[bold red]Error: Unknown mode '' @ [CHR 0x27]
                    @ (case mode of None \<Rightarrow> ''None'' | Some m \<Rightarrow> m) @ [CHR 0x27]
                    @ ''. Please choose a valid mode.[/bold red]'') w)"

text \<open>
  \<^verbatim>\<open>main\<close>: the usage screen when the program is run without arguments, else the
  dispatcher, then the file, then the table. The text of the header and of the menu is
  not reproduced.
\<close>

definition main ::
  "pylib \<Rightarrow> string option \<Rightarrow> string option \<Rightarrow> string option \<Rightarrow> int option \<Rightarrow> int option \<Rightarrow> int
     \<Rightarrow> string option \<Rightarrow> string \<Rightarrow> world \<Rightarrow> (exn + unit) \<times> world" where
  "main lib mode secretkey pubkey start stop delay custom_endpoint output_folder w =
     (if argv_len w = 1 then (Inl typer_Exit, emit PrintMenu (emit PrintHeader w))
      else
        case dispatch mode secretkey pubkey start stop delay custom_endpoint w of
          (Inl e, w1) \<Rightarrow> (Inl e, w1)
        | (Inr results, w1) \<Rightarrow>
            (case (if results \<noteq> [] then save_results_to_file lib results output_folder w1
                   else (Inr (), emit (Print ''[bold yellow]No results to save. Ensure the mode executed properly.[/bold yellow]'') w1)) of
               (Inl e, w2) \<Rightarrow> (Inl e, w2)
             | (Inr u, w2) \<Rightarrow>
                 if results \<noteq> [] then display_results lib results w2
                 else (Inr (), emit (Print ''[bold yellow]No results to display.[/bold yellow]'') w2)))"

section \<open>Vocabulary of the specification\<close>

text \<open>
  An Outcome is the dict a probe returns: \<open>succeeded\<close> is its \<^verbatim>\<open>status\<close>, \<open>payload\<close> its
  \<^verbatim>\<open>raw_response\<close>, \<open>error_of\<close> its \<^verbatim>\<open>error\<close>; an absent key is \<open>None\<close>.
\<close>

definition succeeded :: "pyval \<Rightarrow> bool" where
  "succeeded d = (case d of PDict kvs \<Rightarrow> map_of kvs ''status'' = Some (PBool True) | v \<Rightarrow> False)"

definition payload :: "pyval \<Rightarrow> pyval option" where
  "payload d = (case d of PDict kvs \<Rightarrow> map_of kvs ''raw_response'' | v \<Rightarrow> None)"

definition error_of :: "pyval \<Rightarrow> pyval option" where
  "error_of d = (case d of PDict kvs \<Rightarrow> map_of kvs ''error'' | v \<Rightarrow> None)"


text \<open>The requests the three probes issue.\<close>

definition charges_request :: "string \<Rightarrow> request" where
  "charges_request secret_key =
     \<lparr>http_method = GET, url = ''https://api.stripe.com/v1/charges'',
      headers = [(''Authorization'', ''Bearer '' @ secret_key)], form_data = []\<rparr>"

definition custom_request :: "string \<Rightarrow> string \<Rightarrow> request" where
  "custom_request secret_key endpoint =
     \<lparr>http_method = GET, url = endpoint,
      headers = [(''Authorization'', ''Bearer '' @ secret_key)], form_data = []\<rparr>"

definition test_card :: "(string \<times> string) list" where
  "test_card = [(''card[number]'', ''4242424242424242''), (''card[exp_month]'', ''12''),
                (''card[exp_year]'', ''2025''), (''card[cvc]'', ''123'')]"

definition token_request :: "string \<Rightarrow> request" where
  "token_request pubkey =
     \<lparr>http_method = POST, url = ''https://api.stripe.com/v1/tokens'',
      headers = [(''Authorization'', ''Bearer '' @ pubkey)], form_data = test_card\<rparr>"

text \<open>
  The runs the specification says are rejected: a mode outside the six, a required
  parameter of the mode that is not given, or a brute-force range with start above stop.
\<close>

definition recognized_modes :: "string list" where
  "recognized_modes = [''default'', ''brute-force'', ''pubkey'', ''full'', ''restricted'', ''custom'']"

definition missing_required ::
  "string option \<Rightarrow> string option \<Rightarrow> string option \<Rightarrow> int option \<Rightarrow> int option
     \<Rightarrow> string option \<Rightarrow> bool" where
  "missing_required mode secretkey pubkey start stop custom_endpoint =
     (if mode = Some ''default'' then secretkey = None
      else if mode = Some ''brute-force'' then secretkey = None \<or> start = None \<or> stop = None
      else if mode = Some ''pubkey'' then pubkey = None
      else if mode = Some ''full'' then secretkey = None \<or> pubkey = None
      else if mode = Some ''restricted'' then secretkey = None
      else if mode = Some ''custom'' then secretkey = None \<or> custom_endpoint = None
      else False)"

definition rejected_run ::
  "string option \<Rightarrow> string option \<Rightarrow> string option \<Rightarrow> int option \<Rightarrow> int option
     \<Rightarrow> string option \<Rightarrow> bool" where
  "rejected_run mode secretkey pubkey start stop custom_endpoint =
     ((case mode of None \<Rightarrow> True | Some m \<Rightarrow> m \<notin> set recognized_modes)
      \<or> missing_required mode secretkey pubkey start stop custom_endpoint
      \<or> (mode = Some ''brute-force'' \<and>
          (case (start, stop) of (Some a, Some b) \<Rightarrow> a > b | other \<Rightarrow> False)))"

text \<open>Console output, as opposed to the network, the timer and the file system.\<close>

fun console_only :: "event \<Rightarrow> bool" where
  "console_only (Request r) = False"
| "console_only (Sleep d) = False"
| "console_only (Mkdir f) = False"
| "console_only (CreateFile f n) = False"
| "console_only (WriteFile f n t) = False"
| "console_only e = True"

text \<open>
  How a row of the file and the row of the table at the same place compare: same Test
  and Result cells, the same verdict (the first four characters of the status), and the
  same status unless the table shows the bare \<^verbatim>\<open>FAIL\<close>.
\<close>

definition rows_correspond :: "csv_row \<Rightarrow> csv_row \<Rightarrow> bool" where
  "rows_correspond file_row table_row =
     (case (file_row, table_row) of
        ((t, r, s), (t', r', s')) \<Rightarrow>
          t' = t \<and> r' = r \<and> take 4 s' = take 4 s \<and> (s' = s \<or> s' = ''FAIL''))"

text \<open>A row whose three cells the CSV reader can take in: none longer than its limit.\<close>

definition cells_within_limit :: "csv_row \<Rightarrow> bool" where
  "cells_within_limit row = list_all (\<lambda>f. length f \<le> field_limit) (row_fields row)"

subsection \<open>Sample worlds\<close>

text \<open>A network that is down, and endpoints answering 200 with a page that is not JSON
  and 404 with plain text.\<close>

definition sample_lib :: pylib where
  "sample_lib =
     \<lparr>str_other = (\<lambda>v. ''<object>''), json_dumps_indent2 = (\<lambda>v. ''<json>''),
      utf8_encodable = (\<lambda>s. True)\<rparr>"

definition world_with :: "(request \<Rightarrow> exn + response) \<Rightarrow> world" where
  "world_with net =
     \<lparr>network = net, clock = ''20240101_120000'', argv_len = 5,
      sleep_limit = 9223372036854, events = []\<rparr>"

definition net_down :: "request \<Rightarrow> exn + response" where
  "net_down req = Inl (Exn RequestException ''Connection refused'')"

definition net_html :: "request \<Rightarrow> exn + response" where
  "net_html req =
     Inr \<lparr>status_code = 200, resp_text = ''<html>ok</html>'',
          json_body = Inl ''Expecting value: line 1 column 1 (char 0)''\<rparr>"

definition net_404 :: "request \<Rightarrow> exn + response" where
  "net_404 req =
     Inr \<lparr>status_code = 404, resp_text = ''Not Found'',
          json_body = Inl ''Expecting value: line 1 column 1 (char 0)''\<rparr>"

definition net_ok :: "request \<Rightarrow> exn + response" where
  "net_ok req =
     Inr \<lparr>status_code = 200, resp_text = ''[1, 2]'',
          json_body = Inr (PList [PInt 1, PInt 2])\<rparr>"


text \<open>An endpoint answering 404 with a text of 131073 characters.\<close>

definition long_cell :: string where
  "long_cell = replicate 131073 CHR ''a''"

definition net_long :: "request \<Rightarrow> exn + response" where
  "net_long req =
     Inr \<lparr>status_code = 404, resp_text = long_cell,
          json_body = Inl ''Expecting value: line 1 column 1 (char 0)''\<rparr>"

text \<open>A network that turns the secret key down with 401 and accepts the token request.\<close>

definition net_secret_rejected :: "request \<Rightarrow> exn + response" where
  "net_secret_rejected req =
     (if http_method req = GET then
        Inr \<lparr>status_code = 401, resp_text = ''Unauthorized'',
             json_body = Inl ''Expecting value: line 1 column 1 (char 0)''\<rparr>
      else
        Inr \<lparr>status_code = 200, resp_text = ''[1, 2]'',
             json_body = Inr (PList [PInt 1, PInt 2])\<rparr>)"

section \<open>Properties\<close>

subsection \<open>The world and the probes, as equations\<close>

lemma events_emit [simp]: "events (emit e w) = events w @ [e]"
  by (simp add: emit_def)

lemma network_emit [simp]: "network (emit e w) = network w"
  by (simp add: emit_def)

lemma argv_len_emit [simp]: "argv_len (emit e w) = argv_len w"
  by (simp add: emit_def)

lemma clock_emit [simp]: "clock (emit e w) = clock w"
  by (simp add: emit_def)

lemma list_charges_eq:
  "test_list_charges key w =
     (Inr (case network w (charges_request key) of
        Inl e \<Rightarrow> PDict [(''status'', PBool False), (''error'', PStr (str_exn e))]
      | Inr resp \<Rightarrow>
          (case json_body resp of
             Inr v \<Rightarrow> PDict [(''status'', PBool (status_code resp = 200)), (''raw_response'', v)]
           | Inl m \<Rightarrow>
               if status_code resp = 200 then PDict [(''status'', PBool False), (''error'', PStr m)]
               else PDict [(''status'', PBool False), (''raw_response'', PStr (resp_text resp))])),
      emit (Request (charges_request key)) w)"
  by (simp add: test_list_charges_def requests_get_def charges_request_def response_json_def Let_def
           split: sum.splits)

lemma custom_endpoint_eq:
  "test_custom_endpoint key endpoint w =
     (Inr (case network w (custom_request key endpoint) of
        Inl e \<Rightarrow> PDict [(''status'', PBool False), (''error'', PStr (str_exn e))]
      | Inr resp \<Rightarrow>
          if status_code resp = 200 then
            (case json_body resp of
               Inr v \<Rightarrow> PDict [(''status'', PBool True), (''raw_response'', v)]
             | Inl m \<Rightarrow> PDict [(''status'', PBool False), (''error'', PStr m)])
          else PDict [(''status'', PBool False), (''raw_response'', PStr (resp_text resp))]),
      emit (Request (custom_request key endpoint)) w)"
  by (simp add: test_custom_endpoint_def requests_get_def custom_request_def response_json_def Let_def
           split: sum.splits)

lemma no_attribute_get_class [simp]: "exn_class_of (no_attribute_get v) = AttributeError"
  by (simp add: no_attribute_get_def)

lemma publishable_returns:
  "\<exists>d. test_publishable_key pubkey w = (Inr d, emit (Request (token_request pubkey)) w)"
  by (simp add: test_publishable_key_def requests_post_def token_request_def test_card_def
        response_json_def Let_def split: sum.splits pyval.splits)

lemma publishable_network_only:
  "network w' = network w \<Longrightarrow> fst (test_publishable_key pubkey w') = fst (test_publishable_key pubkey w)"
  by (simp add: test_publishable_key_def requests_post_def Let_def)

lemma scanner_eq:
  "brute_force_customers key delay a b w =
     (if delay < - sleep_limit w \<or> sleep_limit w < delay then
        (Inl (Exn OverflowError ''timestamp too large to convert to C _PyTime_t''), w)
      else if delay < 0 then (Inl (Exn ValueError ''sleep length must be non-negative''), w)
      else (Inr (PDict [(''found_customers'', PList [
                  PDict [(''id'', PStr (''cus_'' @ format_010 a)),
                         (''email'', PStr ''customer1@example.com'')],
                  PDict [(''id'', PStr (''cus_'' @ format_010 b)),
                         (''email'', PNone)]])]), emit (Sleep delay) w))"
  by (simp add: brute_force_customers_def time_sleep_ms_def)

subsection \<open>Zero padding\<close>

lemma digit_char_props: "d < 10 \<Longrightarrow> is_digit (digit_char d) \<and> digit_val (digit_char d) = d"
  by (simp add: is_digit_def digit_val_def digit_char_def)

lemma digits_all_digit: "list_all is_digit (digits n)"
proof (induction n rule: digits.induct)
  case (1 n)
  show ?case
  proof (cases "n < 10")
    case True
    then show ?thesis by (simp add: digits.simps [of n] digit_char_props)
  next
    case False
    with 1 show ?thesis by (simp add: digits.simps [of n] digit_char_props)
  qed
qed

lemma decimal_val_snoc: "decimal_val (s @ [c]) = 10 * decimal_val s + digit_val c"
  by (simp add: decimal_val_def)

lemma decimal_val_digits: "decimal_val (digits n) = n"
proof (induction n rule: digits.induct)
  case (1 n)
  show ?case
  proof (cases "n < 10")
    case True
    then show ?thesis by (simp add: digits.simps [of n] digit_char_props decimal_val_def)
  next
    case False
    with 1 show ?thesis by (simp add: digits.simps [of n] digit_char_props decimal_val_snoc)
  qed
qed

lemma length_digits: "n < 10 ^ k \<Longrightarrow> 0 < k \<Longrightarrow> length (digits n) \<le> k"
proof (induction n arbitrary: k rule: digits.induct)
  case (1 n)
  show ?case
  proof (cases "n < 10")
    case True
    with 1 show ?thesis by (simp add: digits.simps [of n])
  next
    case False
    obtain j where k: "k = Suc j" using 1(3) by (cases k) auto
    have "j > 0" using False 1(2) k by (cases j) auto
    moreover have "n div 10 < 10 ^ j"
      using 1(2) k by (simp add: less_mult_imp_div_less mult.commute)
    ultimately have "length (digits (n div 10)) \<le> j" using 1(1) False by simp
    then show ?thesis using False k by (simp add: digits.simps [of n])
  qed
qed

lemma decimal_val_zeros: "decimal_val (replicate m CHR ''0'' @ s) = decimal_val s"
proof (induction m)
  case 0
  then show ?case by simp
next
  case (Suc m)
  have "foldl (\<lambda>acc c. 10 * acc + digit_val c) 0 (CHR ''0'' # replicate m CHR ''0'' @ s)
        = foldl (\<lambda>acc c. 10 * acc + digit_val c) 0 (replicate m CHR ''0'' @ s)"
    by (simp add: digit_val_def)
  with Suc show ?case by (simp add: decimal_val_def)
qed

lemma format_010_padded:
  assumes "0 \<le> n" and "n < 10 ^ 10"
  shows "length (format_010 n) = 10 \<and> list_all is_digit (format_010 n) \<and>
         int (decimal_val (format_010 n)) = n"
proof -
  have "nat n < 10 ^ 10" using assms by (simp add: nat_less_iff)
  then have len: "length (digits (nat n)) \<le> 10" by (rule length_digits) simp
  have "is_digit CHR ''0''" by (simp add: is_digit_def)
  then have "list_all is_digit (replicate (10 - length (digits (nat n))) CHR ''0'')"
    by (simp add: list_all_iff)
  then show ?thesis
    using assms len
    by (simp add: format_010_def zfill_def digits_all_digit decimal_val_zeros decimal_val_digits)
qed

lemma fmt_1: "format_010 1 = ''0000000001''"
  by code_simp

lemma fmt_100: "format_010 100 = ''0000000100''"
  by code_simp

lemma fmt_7: "format_010 7 = ''0000000007''"
  by code_simp

lemma unset_None [simp]: "unset None"
  by (simp add: unset_def)

lemma unset_Some [simp]: "unset (Some s) = (s = [])"
  by (simp add: unset_def)

subsection \<open>The scanner\<close>

text \<open>
  C2, as amended. For every call of the scanner whose delay is not negative and not
  beyond the range of the platform's timer, the scanner pauses once, for \<open>delay\<close>
  milliseconds, and returns a \<^verbatim>\<open>found_customers\<close> list of exactly two entries: the
  first with the id \<^verbatim>\<open>cus_\<close> followed by the start formatted by \<^verbatim>\<open>{:010}\<close>, the second
  the same for the stop. For a number from 0 below \<open>10^10\<close> that format is ten decimal
  digits denoting the number.
\<close>

theorem scanner_two_boundary_ids:
  assumes "0 \<le> delay" and "delay \<le> sleep_limit w"
  shows "brute_force_customers key delay a b w =
           (Inr (PDict [(''found_customers'', PList [
                   PDict [(''id'', PStr (''cus_'' @ format_010 a)),
                          (''email'', PStr ''customer1@example.com'')],
                   PDict [(''id'', PStr (''cus_'' @ format_010 b)),
                          (''email'', PNone)]])]),
            w\<lparr>events := events w @ [Sleep delay]\<rparr>)
         \<and> (\<forall>n. 0 \<le> n \<and> n < 10 ^ 10 \<longrightarrow>
               length (format_010 n) = 10 \<and> list_all is_digit (format_010 n) \<and>
               int (decimal_val (format_010 n)) = n)"
  using assms by (simp add: scanner_eq emit_def format_010_padded)

theorem scanner_two_boundary_ids_witness:
  "(0::int) \<le> 500 \<and> 500 \<le> sleep_limit (world_with net_down) \<and>
   fst (brute_force_customers ''sk_test_1'' 500 1 100 (world_with net_down)) =
     Inr (PDict [(''found_customers'', PList [
            PDict [(''id'', PStr ''cus_0000000001''), (''email'', PStr ''customer1@example.com'')],
            PDict [(''id'', PStr ''cus_0000000100''), (''email'', PNone)]])]) \<and>
   events (snd (brute_force_customers ''sk_test_1'' 500 1 100 (world_with net_down))) = [Sleep 500]"
  using scanner_two_boundary_ids [where delay = 500 and key = "''sk_test_1''" and a = 1 and b = 100
                                    and w = "world_with net_down"]
  by (simp add: fmt_1 fmt_100 world_with_def)

theorem scanner_negative_delay_counterexample:
  "(1::int) \<le> 100 \<and>
   fst (brute_force_customers ''sk_test_1'' (- 1) 1 100 (world_with net_down)) =
     Inl (Exn ValueError ''sleep length must be non-negative'') \<and>
   events (snd (brute_force_customers ''sk_test_1'' (- 1) 1 100 (world_with net_down))) = [] \<and>
   fst (brute_force_customers ''sk_test_1'' 10000000000000 1 100 (world_with net_down)) =
     Inl (Exn OverflowError ''timestamp too large to convert to C _PyTime_t'') \<and>
   events (snd (brute_force_customers ''sk_test_1'' 10000000000000 1 100 (world_with net_down)))
     = []"
  by (simp add: scanner_eq world_with_def)

text \<open>
  C10. Whatever the credential, the delay and the range, a call of the scanner returns
  unless the delay is negative or beyond the timer's range, and in what it returns the first entry carries the email
  \<^verbatim>\<open>customer1@example.com\<close> and the second carries \<^verbatim>\<open>None\<close>; when start and stop are
  equal the two entries have the same id.
\<close>

theorem scanner_emails:
  "case fst (brute_force_customers key delay a b w) of
     Inl e \<Rightarrow> delay < 0 \<or> sleep_limit w < delay
   | Inr r \<Rightarrow>
       (\<exists>id1 id2.
          r = PDict [(''found_customers'', PList [
                PDict [(''id'', id1), (''email'', PStr ''customer1@example.com'')],
                PDict [(''id'', id2), (''email'', PNone)]])] \<and>
          (a = b \<longrightarrow> id1 = id2))"
  by (simp add: scanner_eq)

theorem scanner_emails_witness:
  "fst (brute_force_customers ''rk_test_9'' 0 7 7 (world_with net_down)) =
     Inr (PDict [(''found_customers'', PList [
            PDict [(''id'', PStr ''cus_0000000007''), (''email'', PStr ''customer1@example.com'')],
            PDict [(''id'', PStr ''cus_0000000007''), (''email'', PNone)]])])"
  using scanner_emails [where key = "''rk_test_9''" and delay = 0 and a = 7 and b = 7
                          and w = "world_with net_down"]
  by (simp add: scanner_eq fmt_7 world_with_def)

subsection \<open>The probes\<close>




text \<open>
  C4. Every call of \<^verbatim>\<open>test_publishable_key\<close> sends exactly one request: a POST to the
  token endpoint, authorised by the publishable key, whose form data is the fixed test
  card 4242424242424242, 12, 2025, 123. The key is the function's only input, so nothing
  else of the caller's can reach the request.
\<close>

theorem publishable_fixed_card:
  "events (snd (test_publishable_key pubkey w)) =
     events w @
     [Request \<lparr>http_method = POST, url = ''https://api.stripe.com/v1/tokens'',
               headers = [(''Authorization'', ''Bearer '' @ pubkey)],
               form_data = [(''card[number]'', ''4242424242424242''),
                            (''card[exp_month]'', ''12''),
                            (''card[exp_year]'', ''2025''),
                            (''card[cvc]'', ''123'')]\<rparr>]"
  by (simp add: test_publishable_key_def requests_post_def Let_def split: prod.splits)

text \<open>
  C5, as amended. \<^verbatim>\<open>test_custom_endpoint\<close> always returns an Outcome. It has succeeded
  exactly when the HTTP status is 200 and the body decodes as JSON, and then the payload
  is the decoded body. On any other status it has not succeeded and the payload is the raw
  text, whether or not the body would decode. When the status is 200 and the body does not
  decode, it has not succeeded, the error is the decoder's message and there is no
  payload. On a transport exception the error is the exception's message.
\<close>

theorem custom_endpoint_outcome:
  "\<exists>d. fst (test_custom_endpoint key endpoint w) = Inr d \<and>
     (succeeded d \<longleftrightarrow>
        (\<exists>resp v. network w (custom_request key endpoint) = Inr resp \<and> status_code resp = 200 \<and>
                  json_body resp = Inr v \<and> payload d = Some v)) \<and>
     (case network w (custom_request key endpoint) of
        Inl e \<Rightarrow> \<not> succeeded d \<and> error_of d = Some (PStr (str_exn e)) \<and> payload d = None
      | Inr resp \<Rightarrow>
          if status_code resp = 200 then
            (case json_body resp of
               Inr v \<Rightarrow> succeeded d \<and> payload d = Some v \<and> error_of d = None
             | Inl m \<Rightarrow> \<not> succeeded d \<and> error_of d = Some (PStr m) \<and> payload d = None)
          else \<not> succeeded d \<and> payload d = Some (PStr (resp_text resp)) \<and> error_of d = None)"
  by (auto simp: custom_endpoint_eq succeeded_def payload_def error_of_def split: sum.splits)

theorem custom_endpoint_outcome_witness:
  "fst (test_custom_endpoint ''sk_test_1'' ''https://example.org/ping'' (world_with net_ok)) =
     Inr (PDict [(''status'', PBool True), (''raw_response'', PList [PInt 1, PInt 2])]) \<and>
   fst (test_custom_endpoint ''sk_test_1'' ''https://example.org/ping'' (world_with net_404)) =
     Inr (PDict [(''status'', PBool False), (''raw_response'', PStr ''Not Found'')])"
  using custom_endpoint_outcome [where key = "''sk_test_1''" and endpoint = "''https://example.org/ping''"
                                   and w = "world_with net_ok"]
  by (simp add: custom_endpoint_eq world_with_def net_ok_def net_404_def)

theorem custom_endpoint_200_counterexample:
  "map_sum id status_code
     (network (world_with net_html) (custom_request ''sk_test_1'' ''https://example.org/ping''))
     = Inr 200 \<and>
   fst (test_custom_endpoint ''sk_test_1'' ''https://example.org/ping'' (world_with net_html)) =
     Inr (PDict [(''status'', PBool False),
                 (''error'', PStr ''Expecting value: line 1 column 1 (char 0)'')])"
  by (simp add: custom_endpoint_eq world_with_def net_html_def)





subsection \<open>The dispatcher\<close>

lemma dispatch_rejected:
  assumes "rejected_run mode secretkey pubkey start stop custom_endpoint"
  shows "\<exists>msg. dispatch mode secretkey pubkey start stop delay custom_endpoint w
           = (Inl typer_Exit, emit (Print msg) w)"
proof -
  consider (default) "mode = Some ''default''" | (brute) "mode = Some ''brute-force''"
    | (pubkey) "mode = Some ''pubkey''" | (full) "mode = Some ''full''"
    | (restricted) "mode = Some ''restricted''" | (custom) "mode = Some ''custom''"
    | (unknown) "mode \<noteq> Some ''default''" "mode \<noteq> Some ''brute-force''" "mode \<noteq> Some ''pubkey''"
        "mode \<noteq> Some ''full''" "mode \<noteq> Some ''restricted''" "mode \<noteq> Some ''custom''"
    by blast
  then show ?thesis
  proof cases
    case default
    with assms have "secretkey = None"
      by (simp add: rejected_run_def missing_required_def recognized_modes_def)
    with default show ?thesis by (auto simp add: dispatch_def error_exit_def)
  next
    case brute
    with assms have "secretkey = None \<or> start = None \<or> stop = None \<or> the start > the stop"
      by (auto simp add: rejected_run_def missing_required_def recognized_modes_def
          split: option.splits)
    with brute show ?thesis by (auto simp add: dispatch_def error_exit_def)
  next
    case pubkey
    with assms have "pubkey = None"
      by (simp add: rejected_run_def missing_required_def recognized_modes_def)
    with pubkey show ?thesis by (auto simp add: dispatch_def error_exit_def)
  next
    case full
    with assms have "secretkey = None \<or> pubkey = None"
      by (simp add: rejected_run_def missing_required_def recognized_modes_def)
    with full show ?thesis by (auto simp add: dispatch_def error_exit_def)
  next
    case restricted
    with assms have "secretkey = None"
      by (simp add: rejected_run_def missing_required_def recognized_modes_def)
    with restricted show ?thesis by (auto simp add: dispatch_def error_exit_def)
  next
    case custom
    with assms have "secretkey = None \<or> custom_endpoint = None"
      by (simp add: rejected_run_def missing_required_def recognized_modes_def)
    with custom show ?thesis by (auto simp add: dispatch_def error_exit_def)
  next
    case unknown
    then show ?thesis by (auto simp add: dispatch_def error_exit_def)
  qed
qed

text \<open>
  C1. When a required parameter of the chosen mode is not given, or start is above stop in
  brute-force mode, or the mode is none of the six, the dispatcher produces no report and
  \<^verbatim>\<open>main\<close> leaves with \<^verbatim>\<open>typer.Exit\<close>; what the run has done by then is console output
  only: no request, no pause, no directory created, no file written.
\<close>

theorem rejected_before_io:
  assumes "rejected_run mode secretkey pubkey start stop custom_endpoint"
  shows "fst (dispatch mode secretkey pubkey start stop delay custom_endpoint w) = Inl typer_Exit \<and>
         fst (main lib mode secretkey pubkey start stop delay custom_endpoint output_folder w)
           = Inl typer_Exit \<and>
         (\<exists>es. events (snd (main lib mode secretkey pubkey start stop delay custom_endpoint
                              output_folder w)) = events w @ es \<and>
               list_all console_only es)"
proof -
  obtain msg where d: "dispatch mode secretkey pubkey start stop delay custom_endpoint w
           = (Inl typer_Exit, emit (Print msg) w)"
    using dispatch_rejected [OF assms] by blast
  show ?thesis
  proof (cases "argv_len w = 1")
    case True
    then show ?thesis by (simp add: d main_def)
  next
    case False
    then show ?thesis by (simp add: d main_def)
  qed
qed

theorem rejected_before_io_witness:
  "rejected_run (Some ''brute-force'') (Some ''sk_test_1'') None (Some 50) (Some 10) None \<and>
   rejected_run (Some ''full'') (Some ''sk_test_1'') None None None None \<and>
   rejected_run (Some ''scan'') (Some ''sk_test_1'') None None None None \<and>
   fst (main sample_lib (Some ''brute-force'') (Some ''sk_test_1'') None (Some 50) (Some 10) 500 None
          ''output'' (world_with net_ok)) = Inl typer_Exit \<and>
   events (snd (main sample_lib (Some ''brute-force'') (Some ''sk_test_1'') None (Some 50) (Some 10)
                  500 None ''output'' (world_with net_ok))) =
     [Print ''[bold red]Error: --start must be less than or equal to --stop.[/bold red]'']"
proof -
  have r: "rejected_run (Some ''brute-force'') (Some ''sk_test_1'') None (Some 50) (Some 10) None"
    by (simp add: rejected_run_def)
  have "rejected_run (Some ''full'') (Some ''sk_test_1'') None None None None"
    by (simp add: rejected_run_def missing_required_def)
  moreover have "rejected_run (Some ''scan'') (Some ''sk_test_1'') None None None None"
    by (simp add: rejected_run_def recognized_modes_def)
  moreover have "events (snd (main sample_lib (Some ''brute-force'') (Some ''sk_test_1'') None
                    (Some 50) (Some 10) 500 None ''output'' (world_with net_ok))) =
     [Print ''[bold red]Error: --start must be less than or equal to --stop.[/bold red]'']"
    by (simp add: main_def dispatch_def error_exit_def world_with_def emit_def)
  ultimately show ?thesis
    using r rejected_before_io [OF r, where lib = sample_lib and delay = 500
                                 and output_folder = "''output''" and w = "world_with net_ok"]
    by simp
qed

text \<open>
  C7. For every full-mode run with both keys given, the report has exactly the keys
  \<^verbatim>\<open>list_charges\<close> and \<^verbatim>\<open>test_publishable_key\<close>, in this order; each entry is the Outcome
  its probe yields on its own, whatever the other probe's Outcome; and the charges
  request is sent before the token request.
\<close>

theorem full_mode_report:
  assumes "\<not> unset secretkey" and "\<not> unset pubkey"
  shows "\<exists>d1 d2 w'.
           dispatch (Some ''full'') secretkey pubkey start stop delay custom_endpoint w =
             (Inr [(''list_charges'', d1), (''test_publishable_key'', d2)], w') \<and>
           fst (test_list_charges (the secretkey) w) = Inr d1 \<and>
           fst (test_publishable_key (the pubkey) w) = Inr d2 \<and>
           events w' = events w @
             [Print ''Testing full validation (secret key and publishable key)...'',
              Request (charges_request (the secretkey)),
              Request (token_request (the pubkey))]"
proof -
  let ?w1 = "emit (Print ''Testing full validation (secret key and publishable key)...'') w"
  let ?w2 = "emit (Request (charges_request (the secretkey))) ?w1"
  obtain d1 where d1: "test_list_charges (the secretkey) ?w1 = (Inr d1, ?w2)"
    by (simp add: list_charges_eq)
  have d1': "fst (test_list_charges (the secretkey) w) = Inr d1"
    using d1 by (simp add: list_charges_eq)
  obtain d2 where d2: "test_publishable_key (the pubkey) ?w2 =
                         (Inr d2, emit (Request (token_request (the pubkey))) ?w2)"
    using publishable_returns by blast
  have "fst (test_publishable_key (the pubkey) w) = fst (test_publishable_key (the pubkey) ?w2)"
    by (rule publishable_network_only [symmetric]) simp
  then have d2': "fst (test_publishable_key (the pubkey) w) = Inr d2"
    using d2 by simp
  have "dispatch (Some ''full'') secretkey pubkey start stop delay custom_endpoint w =
          (Inr [(''list_charges'', d1), (''test_publishable_key'', d2)],
           emit (Request (token_request (the pubkey))) ?w2)"
    using assms by (simp add: dispatch_def store_def d1 d2)
  with d1' d2' show ?thesis by simp
qed

theorem full_mode_report_witness:
  "\<not> unset (Some ''sk_test_1'') \<and> \<not> unset (Some ''pk_test_1'') \<and>
   fst (dispatch (Some ''full'') (Some ''sk_test_1'') (Some ''pk_test_1'') None None 500 None
          (world_with net_secret_rejected)) =
     Inr [(''list_charges'',
             PDict [(''status'', PBool False), (''raw_response'', PStr ''Unauthorized'')]),
          (''test_publishable_key'',
             PDict [(''status'', PBool True), (''raw_response'', PList [PInt 1, PInt 2])])]"
proof -
  have a: "\<not> unset (Some ''sk_test_1'')" and b: "\<not> unset (Some ''pk_test_1'')"
    by simp_all
  have c: "fst (test_list_charges ''sk_test_1'' (world_with net_secret_rejected)) =
             Inr (PDict [(''status'', PBool False), (''raw_response'', PStr ''Unauthorized'')])"
    by (simp add: list_charges_eq world_with_def net_secret_rejected_def charges_request_def)
  have d: "fst (test_publishable_key ''pk_test_1'' (world_with net_secret_rejected)) =
             Inr (PDict [(''status'', PBool True), (''raw_response'', PList [PInt 1, PInt 2])])"
    by (simp add: test_publishable_key_def requests_post_def response_json_def Let_def
          world_with_def net_secret_rejected_def)
  show ?thesis
    using a b c d
      full_mode_report [OF a b, where start = None and stop = None and delay = 500
                          and custom_endpoint = None and w = "world_with net_secret_rejected"]
    by auto
qed

subsection \<open>The reporter\<close>

lemma rows_correspond_same: "rows_correspond r r"
  by (cases r) (simp add: rows_correspond_def)

lemma rows_correspond_all_same: "list_all2 rows_correspond rows rows"
  by (simp add: list_all2_same rows_correspond_same)

lemma same_result_correspond:
  "rel_sum (=) (list_all2 rows_correspond) x x"
  by (cases x) (simp_all add: rows_correspond_all_same)

lemma entry_rows_correspond:
  "rel_sum (=) (list_all2 rows_correspond) (csv_entry_rows lib test data)
     (display_entry_rows lib test data)"
proof (cases data)
  case (PDict kvs)
  show ?thesis
  proof (cases "dict_has kvs ''raw_response''")
    case True
    then obtain p where "map_of kvs ''raw_response'' = Some p"
      by (auto simp: dict_has_def)
    then show ?thesis
      using PDict
      by (simp add: csv_entry_rows_def display_entry_rows_def rows_correspond_def dict_has_def
            dict_get_def dict_get_default_def)
  next
    case False
    then have "map_of kvs ''raw_response'' = None"
      by (simp add: dict_has_def)
    then show ?thesis
      using PDict
      by (simp add: csv_entry_rows_def display_entry_rows_def rows_correspond_def dict_has_def
            dict_get_default_def same_result_correspond)
  qed
qed (simp_all add: csv_entry_rows_def display_entry_rows_def rows_correspond_def)

lemma report_rows_correspond:
  assumes "\<And>test data. rel_sum (=) (list_all2 R) (f test data) (g test data)"
  shows "rel_sum (=) (list_all2 R) (report_rows f results) (report_rows g results)"
proof (induction results)
  case Nil
  show ?case by simp
next
  case (Cons entry results)
  obtain test data where entry: "entry = (test, data)" by (cases entry)
  from assms [of test data] Cons.IH show ?case
    unfolding entry
    by (cases "f test data"; cases "g test data";
        cases "report_rows f results"; cases "report_rows g results")
       (simp_all add: list_all2_appendI)
qed

text \<open>
  C8, as amended. The table and the file are derived from the same report by the same
  walk over its entries: either both fail with the same exception, or they have the same
  number of rows and the rows at the same place have the same Test and Result cells and
  the same verdict, PASS or FAIL. The status cells themselves are equal except where the
  table shows the bare \<^verbatim>\<open>FAIL\<close>: for an entry that has a payload and has not succeeded
  the table's status is \<^verbatim>\<open>FAIL\<close> and the file's is \<^verbatim>\<open>FAIL (<summary>)\<close>. The rule: an
  entry that has succeeded and has a payload gets \<^verbatim>\<open>PASS\<close> in both; an entry with
  \<^verbatim>\<open>found_customers\<close> and no payload gives, in both, one row per customer, labelled
  \<^verbatim>\<open>Found Customer\<close>, with \<^verbatim>\<open>PASS\<close> exactly when its id is true (non-empty); an entry that
  has not succeeded and has neither gets, in both, \<^verbatim>\<open>FAIL (<summary>)\<close>, the summary
  being the text of the error, else \<^verbatim>\<open>Unknown Error\<close>; in the file the summary of a
  failed entry with a payload is the text (\<^verbatim>\<open>str\<close>) of the error, else of the payload.
\<close>

theorem renderings_correspond:
  "rel_sum (=) (list_all2 rows_correspond) (csv_data lib results) (table_rows lib results) \<and>
   (\<forall>test kvs p. map_of kvs ''raw_response'' = Some p \<and> py_truthy (dict_get kvs ''status'') \<longrightarrow>
      csv_entry_rows lib test (PDict kvs) = Inr [(test, result_str lib p, ''PASS'')] \<and>
      display_entry_rows lib test (PDict kvs) = Inr [(test, result_str lib p, ''PASS'')]) \<and>
   (\<forall>test kvs cs. map_of kvs ''raw_response'' = None \<and>
        map_of kvs ''found_customers'' = Some (PList cs) \<longrightarrow>
      csv_entry_rows lib test (PDict kvs) = customer_rows lib cs \<and>
      display_entry_rows lib test (PDict kvs) = customer_rows lib cs) \<and>
   (\<forall>c i. map_of c ''id'' = Some i \<longrightarrow>
      customer_row lib (PDict c) =
        Inr (''Found Customer'',
             py_str lib i @ '' ('' @ py_str lib (dict_get_default c ''email'' (PStr ''No Email''))
               @ '')'',
             if py_truthy i then ''PASS'' else ''FAIL'')) \<and>
   (\<forall>test kvs. map_of kvs ''raw_response'' = None \<and> map_of kvs ''found_customers'' = None \<and>
        \<not> py_truthy (dict_get kvs ''status'') \<longrightarrow>
      csv_entry_rows lib test (PDict kvs) =
        Inr [(test, ''-'',
              ''FAIL ('' @ py_str lib (dict_get_default kvs ''error'' (PStr ''Unknown Error''))
                @ '')'')] \<and>
      display_entry_rows lib test (PDict kvs) = csv_entry_rows lib test (PDict kvs)) \<and>
   (\<forall>test kvs p. map_of kvs ''raw_response'' = Some p \<and> \<not> py_truthy (dict_get kvs ''status'') \<longrightarrow>
      csv_entry_rows lib test (PDict kvs) =
        Inr [(test, result_str lib p,
              ''FAIL ('' @ py_str lib (dict_get_default kvs ''error'' p) @ '')'')] \<and>
      display_entry_rows lib test (PDict kvs) = Inr [(test, result_str lib p, ''FAIL'')])"
proof -
  have 1: "rel_sum (=) (list_all2 rows_correspond) (csv_data lib results) (table_rows lib results)"
    unfolding csv_data_def table_rows_def
    by (rule report_rows_correspond) (rule entry_rows_correspond)
  have 2: "\<forall>test kvs p. map_of kvs ''raw_response'' = Some p \<and> py_truthy (dict_get kvs ''status'') \<longrightarrow>
      csv_entry_rows lib test (PDict kvs) = Inr [(test, result_str lib p, ''PASS'')] \<and>
      display_entry_rows lib test (PDict kvs) = Inr [(test, result_str lib p, ''PASS'')]"
    by (simp add: csv_entry_rows_def display_entry_rows_def dict_has_def dict_get_def
          dict_get_default_def)
  have 3: "\<forall>test kvs cs. map_of kvs ''raw_response'' = None \<and>
        map_of kvs ''found_customers'' = Some (PList cs) \<longrightarrow>
      csv_entry_rows lib test (PDict kvs) = customer_rows lib cs \<and>
      display_entry_rows lib test (PDict kvs) = customer_rows lib cs"
    by (simp add: csv_entry_rows_def display_entry_rows_def dict_has_def dict_get_def
          found_customer_rows_def)
  have 4: "\<forall>c i. map_of c ''id'' = Some i \<longrightarrow>
      customer_row lib (PDict c) =
        Inr (''Found Customer'',
             py_str lib i @ '' ('' @ py_str lib (dict_get_default c ''email'' (PStr ''No Email''))
               @ '')'',
             if py_truthy i then ''PASS'' else ''FAIL'')"
    by (simp add: customer_row_def dict_get_def)
  have 5: "\<forall>test kvs. map_of kvs ''raw_response'' = None \<and> map_of kvs ''found_customers'' = None \<and>
        \<not> py_truthy (dict_get kvs ''status'') \<longrightarrow>
      csv_entry_rows lib test (PDict kvs) =
        Inr [(test, ''-'',
              ''FAIL ('' @ py_str lib (dict_get_default kvs ''error'' (PStr ''Unknown Error''))
                @ '')'')] \<and>
      display_entry_rows lib test (PDict kvs) = csv_entry_rows lib test (PDict kvs)"
    by (simp add: csv_entry_rows_def display_entry_rows_def dict_has_def dict_get_default_def)
  have 6: "\<forall>test kvs p. map_of kvs ''raw_response'' = Some p \<and> \<not> py_truthy (dict_get kvs ''status'') \<longrightarrow>
      csv_entry_rows lib test (PDict kvs) =
        Inr [(test, result_str lib p,
              ''FAIL ('' @ py_str lib (dict_get_default kvs ''error'' p) @ '')'')] \<and>
      display_entry_rows lib test (PDict kvs) = Inr [(test, result_str lib p, ''FAIL'')]"
    by (simp add: csv_entry_rows_def display_entry_rows_def dict_has_def dict_get_def
          dict_get_default_def)
  from 1 2 3 4 5 6 show ?thesis by blast
qed

theorem renderings_correspond_witness:
  "csv_data sample_lib
     [(''list_charges'', PDict [(''status'', PBool True), (''raw_response'', PStr ''ok'')]),
      (''brute_force_results'', PDict [(''found_customers'', PList [
          PDict [(''id'', PStr ''cus_0000000001''), (''email'', PStr ''customer1@example.com'')],
          PDict [(''id'', PStr ''''), (''email'', PNone)]])]),
      (''test_publishable_key'', PDict [(''status'', PBool False), (''error'', PStr ''refused'')])]
   = Inr [(''list_charges'', ''ok'', ''PASS''),
          (''Found Customer'', ''cus_0000000001 (customer1@example.com)'', ''PASS''),
          (''Found Customer'', '' (None)'', ''FAIL''),
          (''test_publishable_key'', ''-'', ''FAIL (refused)'')] \<and>
   table_rows sample_lib
     [(''list_charges'', PDict [(''status'', PBool True), (''raw_response'', PStr ''ok'')]),
      (''brute_force_results'', PDict [(''found_customers'', PList [
          PDict [(''id'', PStr ''cus_0000000001''), (''email'', PStr ''customer1@example.com'')],
          PDict [(''id'', PStr ''''), (''email'', PNone)]])]),
      (''test_publishable_key'', PDict [(''status'', PBool False), (''error'', PStr ''refused'')])]
   = Inr [(''list_charges'', ''ok'', ''PASS''),
          (''Found Customer'', ''cus_0000000001 (customer1@example.com)'', ''PASS''),
          (''Found Customer'', '' (None)'', ''FAIL''),
          (''test_publishable_key'', ''-'', ''FAIL (refused)'')]"
  using renderings_correspond [where lib = sample_lib and results =
     "[(''list_charges'', PDict [(''status'', PBool True), (''raw_response'', PStr ''ok'')]),
      (''brute_force_results'', PDict [(''found_customers'', PList [
          PDict [(''id'', PStr ''cus_0000000001''), (''email'', PStr ''customer1@example.com'')],
          PDict [(''id'', PStr ''''), (''email'', PNone)]])]),
      (''test_publishable_key'', PDict [(''status'', PBool False), (''error'', PStr ''refused'')])]"]
  by (simp add: csv_data_def table_rows_def csv_entry_rows_def display_entry_rows_def dict_has_def
        dict_get_def dict_get_default_def found_customer_rows_def customer_row_def result_str_def)

theorem renderings_status_counterexample:
  "csv_data sample_lib
     [(''test_custom_endpoint'', PDict [(''status'', PBool False), (''raw_response'', PStr ''Not Found'')])]
   = Inr [(''test_custom_endpoint'', ''Not Found'', ''FAIL (Not Found)'')] \<and>
   table_rows sample_lib
     [(''test_custom_endpoint'', PDict [(''status'', PBool False), (''raw_response'', PStr ''Not Found'')])]
   = Inr [(''test_custom_endpoint'', ''Not Found'', ''FAIL'')]"
  by (simp add: csv_data_def table_rows_def csv_entry_rows_def display_entry_rows_def dict_has_def
        dict_get_def dict_get_default_def result_str_def)

subsection \<open>Reading the file back\<close>

lemma not_line_end: "c \<noteq> LF \<Longrightarrow> c \<noteq> CR \<Longrightarrow> xs \<noteq> [] \<Longrightarrow> line_end c xs = False"
  by (cases xs) (simp_all add: line_end_def)

lemma special_chars_distinct [simp]:
  "CR \<noteq> LF" "LF \<noteq> CR" "DQ \<noteq> LF" "DQ \<noteq> CR" "COMMA \<noteq> LF" "COMMA \<noteq> CR" "COMMA \<noteq> DQ"
  "DQ \<noteq> COMMA" "LF \<noteq> DQ" "CR \<noteq> DQ" "LF \<noteq> COMMA" "CR \<noteq> COMMA"
  by (simp_all add: CR_def LF_def DQ_def COMMA_def)

text \<open>Single steps of the reader, below the field limit.\<close>

lemma read_quoted_char:
  "c \<noteq> DQ \<Longrightarrow> length buf < field_limit \<Longrightarrow>
   csv_read (IN_QUOTED_FIELD, buf, row) (c # xs) = csv_read (IN_QUOTED_FIELD, buf @ [c], row) xs"
  by (simp add: csv_read.simps parse_add_char_def)

lemma read_quoted_quote:
  "xs \<noteq> [] \<Longrightarrow> length buf < field_limit \<Longrightarrow>
   csv_read (IN_QUOTED_FIELD, buf, row) (DQ # DQ # xs) =
     csv_read (IN_QUOTED_FIELD, buf @ [DQ], row) xs"
  by (simp add: csv_read.simps not_line_end parse_add_char_def)

lemma read_close_quote:
  "xs \<noteq> [] \<Longrightarrow>
   csv_read (IN_QUOTED_FIELD, buf, row) (DQ # xs) = csv_read (QUOTE_IN_QUOTED_FIELD, buf, row) xs"
  by (simp add: csv_read.simps not_line_end)

lemma read_plain_char:
  "\<not> csv_special c \<Longrightarrow> xs \<noteq> [] \<Longrightarrow> length buf < field_limit \<Longrightarrow>
   csv_read (IN_FIELD, buf, row) (c # xs) = csv_read (IN_FIELD, buf @ [c], row) xs"
  by (simp add: csv_read.simps not_line_end csv_special_def parse_add_char_def)

lemma read_open_quote:
  "st = START_FIELD \<or> st = START_RECORD \<Longrightarrow> xs \<noteq> [] \<Longrightarrow>
   csv_read (st, buf, row) (DQ # xs) = csv_read (IN_QUOTED_FIELD, buf, row) xs"
  by (auto simp add: csv_read.simps start_field_def not_line_end)

lemma read_first_plain:
  "st = START_FIELD \<or> st = START_RECORD \<Longrightarrow> \<not> csv_special c \<Longrightarrow> xs \<noteq> [] \<Longrightarrow>
   length buf < field_limit \<Longrightarrow>
   csv_read (st, buf, row) (c # xs) = csv_read (IN_FIELD, buf @ [c], row) xs"
  by (auto simp add: csv_read.simps start_field_def not_line_end csv_special_def
        parse_add_char_def)

lemma read_comma:
  "st = IN_FIELD \<or> st = QUOTE_IN_QUOTED_FIELD \<or> st = START_FIELD \<or> st = START_RECORD \<Longrightarrow>
   xs \<noteq> [] \<Longrightarrow>
   csv_read (st, buf, row) (COMMA # xs) = csv_read (START_FIELD, [], row @ [buf]) xs"
  by (auto simp add: csv_read.simps start_field_def not_line_end)

lemma read_crlf:
  "st = IN_FIELD \<or> st = QUOTE_IN_QUOTED_FIELD \<or> st = START_FIELD \<Longrightarrow>
   csv_read (st, buf, row) (CR # LF # rest) =
     (case csv_read parse_reset rest of
        Inl e \<Rightarrow> Inl e
      | Inr rows \<Rightarrow> Inr ((row @ [buf]) # rows))"
  by (auto simp add: csv_read.simps start_field_def line_end_def split: list.splits)

text \<open>Inside a quoted field: the escaped text up to the closing quote.\<close>

lemma read_quoted_body:
  "rest \<noteq> [] \<Longrightarrow> length buf + length f \<le> field_limit \<Longrightarrow>
   csv_read (IN_QUOTED_FIELD, buf, row) (csv_escape f @ DQ # rest) =
     csv_read (QUOTE_IN_QUOTED_FIELD, buf @ f, row) rest"
proof (induction f arbitrary: buf)
  case Nil
  then show ?case by (simp add: read_close_quote)
next
  case (Cons c cs)
  have "csv_read (IN_QUOTED_FIELD, buf, row) (csv_escape (c # cs) @ DQ # rest) =
          csv_read (IN_QUOTED_FIELD, buf @ [c], row) (csv_escape cs @ DQ # rest)"
    using Cons.prems(2) by (cases "c = DQ") (simp_all add: read_quoted_quote read_quoted_char)
  also have "\<dots> = csv_read (QUOTE_IN_QUOTED_FIELD, (buf @ [c]) @ cs, row) rest"
    using Cons.prems by (intro Cons.IH) simp_all
  finally show ?case by simp
qed

text \<open>Inside an unquoted field: characters that need no quoting.\<close>

lemma read_plain_body:
  "rest \<noteq> [] \<Longrightarrow> \<not> list_ex csv_special f \<Longrightarrow> length buf + length f \<le> field_limit \<Longrightarrow>
   csv_read (IN_FIELD, buf, row) (f @ rest) = csv_read (IN_FIELD, buf @ f, row) rest"
proof (induction f arbitrary: buf)
  case Nil
  show ?case by simp
next
  case (Cons c cs)
  have "csv_read (IN_FIELD, buf, row) ((c # cs) @ rest) =
          csv_read (IN_FIELD, buf @ [c], row) (cs @ rest)"
    using Cons.prems by (simp add: read_plain_char)
  also have "\<dots> = csv_read (IN_FIELD, (buf @ [c]) @ cs, row) rest"
    using Cons.prems by (intro Cons.IH) simp_all
  finally show ?case by simp
qed

text \<open>
  A written field within the limit, read where a field is expected, up to the character
  after it: the reader then holds the field's text, in a state in which a comma or a
  line end saves it.
\<close>

lemma read_field:
  assumes "st = START_FIELD \<or> st = START_RECORD" and "rest \<noteq> []"
    and "length f \<le> field_limit"
  shows "\<exists>st'. csv_read (st, [], row) (csv_field f @ rest) = csv_read (st', f, row) rest \<and>
               (st' = IN_FIELD \<or> st' = QUOTE_IN_QUOTED_FIELD \<or> (st' = st \<and> f = []))"
proof (cases "list_ex csv_special f")
  case True
  have "csv_read (st, [], row) (csv_field f @ rest) =
          csv_read (IN_QUOTED_FIELD, [], row) (csv_escape f @ DQ # rest)"
    using True assms(1) by (simp add: csv_field_def read_open_quote)
  also have "\<dots> = csv_read (QUOTE_IN_QUOTED_FIELD, [] @ f, row) rest"
    using assms(2,3) by (intro read_quoted_body) simp_all
  finally show ?thesis by auto
next
  case False
  show ?thesis
  proof (cases f)
    case Nil
    then show ?thesis using False by (auto simp add: csv_field_def)
  next
    case (Cons c cs)
    have cs: "\<not> list_ex csv_special cs" and c: "\<not> csv_special c"
      using False Cons by simp_all
    have pos: "0 < field_limit" by (simp add: field_limit_def)
    have "csv_read (st, [], row) (csv_field f @ rest) = csv_read (IN_FIELD, [] @ [c], row) (cs @ rest)"
      using False Cons c assms pos by (simp add: csv_field_def read_first_plain)
    also have "\<dots> = csv_read (IN_FIELD, ([] @ [c]) @ cs, row) rest"
      using assms(2,3) cs Cons by (intro read_plain_body) simp_all
    finally show ?thesis using Cons by auto
  qed
qed

text \<open>A written field and the comma after it.\<close>

lemma read_field_comma:
  assumes "st = START_FIELD \<or> st = START_RECORD" and "rest \<noteq> []"
    and "length f \<le> field_limit"
  shows "csv_read (st, [], row) (csv_field f @ COMMA # rest) =
           csv_read (START_FIELD, [], row @ [f]) rest"
proof -
  obtain st' where st':
      "csv_read (st, [], row) (csv_field f @ COMMA # rest) = csv_read (st', f, row) (COMMA # rest)"
      "st' = IN_FIELD \<or> st' = QUOTE_IN_QUOTED_FIELD \<or> (st' = st \<and> f = [])"
    using read_field [OF assms(1) _ assms(3), of "COMMA # rest" row] by auto
  have "csv_read (st', f, row) (COMMA # rest) = csv_read (START_FIELD, [], row @ [f]) rest"
    using st'(2) assms by (intro read_comma) auto
  with st'(1) show ?thesis by simp
qed

text \<open>The last field of a row and the CR LF after it: the record is complete.\<close>

lemma read_field_crlf:
  assumes "length f \<le> field_limit"
  shows "csv_read (START_FIELD, [], row) (csv_field f @ CR # LF # rest) =
     (case csv_read parse_reset rest of
        Inl e \<Rightarrow> Inl e
      | Inr rows \<Rightarrow> Inr ((row @ [f]) # rows))"
proof -
  obtain st' where st':
      "csv_read (START_FIELD, [], row) (csv_field f @ CR # LF # rest) =
         csv_read (st', f, row) (CR # LF # rest)"
      "st' = IN_FIELD \<or> st' = QUOTE_IN_QUOTED_FIELD \<or> (st' = START_FIELD \<and> f = [])"
    using read_field [of START_FIELD "CR # LF # rest" f row] assms by auto
  have "csv_read (st', f, row) (CR # LF # rest) =
          (case csv_read parse_reset rest of
             Inl e \<Rightarrow> Inl e
           | Inr rows \<Rightarrow> Inr ((row @ [f]) # rows))"
    using st'(2) by (intro read_crlf) auto
  with st'(1) show ?thesis by simp
qed

text \<open>The fields of a row after its first comma.\<close>

lemma read_fields_tail:
  "fs \<noteq> [] \<Longrightarrow> list_all (\<lambda>f. length f \<le> field_limit) fs \<Longrightarrow>
   csv_read (START_FIELD, [], row) (csv_join fs @ CR # LF # rest) =
     (case csv_read parse_reset rest of
        Inl e \<Rightarrow> Inl e
      | Inr rows \<Rightarrow> Inr ((row @ fs) # rows))"
proof (induction fs arbitrary: row rule: csv_join.induct)
  case 1
  then show ?case by simp
next
  case (2 f)
  then show ?case by (simp add: read_field_crlf)
next
  case (3 f g gs)
  have "csv_read (START_FIELD, [], row) (csv_join (f # g # gs) @ CR # LF # rest) =
          csv_read (START_FIELD, [], row) (csv_field f @ COMMA # (csv_join (g # gs) @ CR # LF # rest))"
    by simp
  also have "\<dots> = csv_read (START_FIELD, [], row @ [f]) (csv_join (g # gs) @ CR # LF # rest)"
    using "3.prems" by (intro read_field_comma) simp_all
  also have "\<dots> = (case csv_read parse_reset rest of
              Inl e \<Rightarrow> Inl e
            | Inr rows \<Rightarrow> Inr ((row @ f # g # gs) # rows))"
    using "3.IH" [of "row @ [f]"] "3.prems" by (cases "csv_read parse_reset rest") simp_all
  finally show ?case .
qed

text \<open>A written row of at least two fields within the limit is read back as that row.\<close>

lemma read_row:
  assumes "list_all (\<lambda>f. length f \<le> field_limit) (f # g # gs)"
  shows "csv_read parse_reset (csv_writerow (f # g # gs) @ rest) =
     (case csv_read parse_reset rest of
        Inl e \<Rightarrow> Inl e
      | Inr rows \<Rightarrow> Inr ((f # g # gs) # rows))"
proof -
  have "csv_read parse_reset (csv_writerow (f # g # gs) @ rest) =
          csv_read (START_RECORD, [], []) (csv_field f @ COMMA # (csv_join (g # gs) @ CR # LF # rest))"
    by (simp add: csv_writerow_def parse_reset_def)
  also have "\<dots> = csv_read (START_FIELD, [], [f]) (csv_join (g # gs) @ CR # LF # rest)"
    using read_field_comma [of START_RECORD "csv_join (g # gs) @ CR # LF # rest" f "[]"] assms
    by simp
  also have "\<dots> = (case csv_read parse_reset rest of
              Inl e \<Rightarrow> Inl e
            | Inr rows \<Rightarrow> Inr ((f # g # gs) # rows))"
    using read_fields_tail [of "g # gs" "[f]" rest] assms
    by (cases "csv_read parse_reset rest") simp_all
  finally show ?thesis .
qed

lemma read_rows:
  "list_all cells_within_limit rows \<Longrightarrow>
   csv_read parse_reset (concat (map (\<lambda>r. csv_writerow (row_fields r)) rows)) =
     Inr (map row_fields rows)"
proof (induction rows)
  case Nil
  show ?case by (simp add: csv_read.simps parse_reset_def)
next
  case (Cons row rows)
  obtain t r s where row: "row = (t, r, s)" by (cases row)
  show ?case using Cons by (simp add: row read_row cells_within_limit_def)
qed

lemma csv_reader_csv_text:
  "list_all cells_within_limit rows \<Longrightarrow>
   csv_reader (csv_text rows) = Inr (fieldnames # map row_fields rows)"
  by (simp add: csv_reader_def csv_text_def fieldnames_def read_row read_rows field_limit_def)

lemma parsed_test_status_csv_text:
  assumes "list_all cells_within_limit rows"
  shows "parsed_test_status (csv_text rows) = Inr (map (\<lambda>(t, r, s). (Some t, Some s)) rows)"
proof -
  have "map (\<lambda>record. (map_of (zip fieldnames record) ''Test'',
                          map_of (zip fieldnames record) ''Status''))
          (filter (\<lambda>record. record \<noteq> []) (map row_fields rows)) =
        map (\<lambda>(t, r, s). (Some t, Some s)) rows"
    by (induction rows) (auto simp add: fieldnames_def)
  then show ?thesis
    using assms by (simp add: parsed_test_status_def csv_reader_csv_text)
qed

text \<open>An unquoted field that outgrows the limit makes the reader raise.\<close>

lemma read_plain_overflow:
  "\<not> list_ex csv_special f \<Longrightarrow> field_limit < length buf + length f \<Longrightarrow>
   length buf \<le> field_limit \<Longrightarrow>
   csv_read (IN_FIELD, buf, row) (f @ rest) = Inl field_too_large"
proof (induction f arbitrary: buf)
  case Nil
  then show ?case by simp
next
  case (Cons c cs)
  have c: "c \<noteq> LF" "c \<noteq> CR" "c \<noteq> COMMA"
    using Cons.prems(1) by (auto simp: csv_special_def)
  show ?case
  proof (cases "length buf = field_limit")
    case True
    then show ?thesis using c by (simp add: csv_read.simps parse_add_char_def)
  next
    case False
    then have lt: "length buf < field_limit" using Cons.prems(3) by simp
    have "csv_read (IN_FIELD, buf, row) ((c # cs) @ rest) =
            (if line_end c (cs @ rest) then
               (case csv_read parse_reset (cs @ rest) of
                  Inl e \<Rightarrow> Inl e
                | Inr rows \<Rightarrow> Inr ((row @ [buf @ [c]]) # rows))
             else csv_read (IN_FIELD, buf @ [c], row) (cs @ rest))"
      using c lt by (simp add: csv_read.simps parse_add_char_def)
    moreover have "cs @ rest \<noteq> []"
      using Cons.prems(2) lt by (cases cs) auto
    ultimately have "csv_read (IN_FIELD, buf, row) ((c # cs) @ rest) =
                       csv_read (IN_FIELD, buf @ [c], row) (cs @ rest)"
      using c by (simp add: not_line_end)
    also have "\<dots> = Inl field_too_large"
      using Cons.prems lt by (intro Cons.IH) simp_all
    finally show ?thesis .
  qed
qed

lemma long_cell_plain: "\<not> list_ex csv_special long_cell"
  by (simp add: long_cell_def list_ex_iff csv_special_def CR_def LF_def DQ_def COMMA_def)

lemma long_cell_length: "length long_cell = 131073"
  by (simp add: long_cell_def)

lemma read_long_cell:
  assumes "st = START_FIELD \<or> st = START_RECORD"
  shows "csv_read (st, [], row) (long_cell @ rest) = Inl field_too_large"
proof -
  obtain c cs where cell: "long_cell = c # cs"
    using long_cell_length by (cases long_cell) auto
  have c: "\<not> csv_special c" and cs: "\<not> list_ex csv_special cs"
    using long_cell_plain unfolding cell by simp_all
  have len: "length cs = 131072"
    using long_cell_length unfolding cell by simp
  have ne: "cs @ rest \<noteq> []"
    using len by auto
  have "csv_read (st, [], row) (c # cs @ rest) = csv_read (IN_FIELD, [] @ [c], row) (cs @ rest)"
    using assms c ne by (intro read_first_plain) (simp_all add: field_limit_def)
  then have "csv_read (st, [], row) (long_cell @ rest) =
               csv_read (IN_FIELD, [] @ [c], row) (cs @ rest)"
    by (simp add: cell)
  also have "\<dots> = Inl field_too_large"
    using cs len by (intro read_plain_overflow) (simp_all add: field_limit_def)
  finally show ?thesis .
qed

text \<open>
  C9, as amended. When the rows of a report can be computed and the UTF-8 codec can
  encode their CSV text, \<^verbatim>\<open>save_results_to_file\<close> creates the folder and writes one file,
  and if no cell of the rows is longer than the CSV reader's limit of 131072 characters,
  reading that file back gives the header and then exactly the rows written, so that
  the (Test, Status) pairs read back are, in order, the ones the reporter assigned; the
  Result cells come back as the strings that were written. When computing the rows
  raises, no file is created; when the text cannot be encoded, the write raises and the
  file is left without the whole text.
\<close>

theorem report_file_round_trip:
  "case csv_data lib results of
     Inl e \<Rightarrow>
       fst (save_results_to_file lib results output_folder w) = Inl e \<and>
       events (snd (save_results_to_file lib results output_folder w)) =
         events w @ [Mkdir output_folder]
   | Inr rows \<Rightarrow>
       if utf8_encodable lib (csv_text rows) then
         fst (save_results_to_file lib results output_folder w) = Inr () \<and>
         events (snd (save_results_to_file lib results output_folder w)) =
           events w @ [Mkdir output_folder,
                       CreateFile output_folder (output_file_name (clock w)),
                       WriteFile output_folder (output_file_name (clock w)) (csv_text rows),
                       PrintSaved output_folder (output_file_name (clock w))] \<and>
         (list_all cells_within_limit rows \<longrightarrow>
            csv_reader (csv_text rows) = Inr (fieldnames # map row_fields rows) \<and>
            parsed_test_status (csv_text rows) = Inr (map (\<lambda>(t, r, s). (Some t, Some s)) rows))
       else
         fst (save_results_to_file lib results output_folder w) =
           Inl (Exn UnicodeEncodeError ''surrogates not allowed'') \<and>
         events (snd (save_results_to_file lib results output_folder w)) =
           events w @ [Mkdir output_folder,
                       CreateFile output_folder (output_file_name (clock w))]"
  by (simp add: save_results_to_file_def Let_def csv_reader_csv_text parsed_test_status_csv_text
        split: sum.splits)

theorem report_file_round_trip_witness:
  "csv_data sample_lib
     [(''test_custom_endpoint'',
       PDict [(''status'', PBool False), (''raw_response'', PStr (''a,b'' @ [DQ, CR, LF]))]),
      (''list_charges'', PDict [(''status'', PBool True), (''raw_response'', PStr ''ok'')])]
   = Inr [(''test_custom_endpoint'', ''a,b'' @ [DQ, CR, LF], ''FAIL (a,b'' @ [DQ, CR, LF] @ '')''),
          (''list_charges'', ''ok'', ''PASS'')] \<and>
   list_all cells_within_limit
     [(''test_custom_endpoint'', ''a,b'' @ [DQ, CR, LF], ''FAIL (a,b'' @ [DQ, CR, LF] @ '')''),
      (''list_charges'', ''ok'', ''PASS'')] \<and>
   parsed_test_status
     (csv_text [(''test_custom_endpoint'', ''a,b'' @ [DQ, CR, LF],
                 ''FAIL (a,b'' @ [DQ, CR, LF] @ '')''),
                (''list_charges'', ''ok'', ''PASS'')])
   = Inr [(Some ''test_custom_endpoint'', Some (''FAIL (a,b'' @ [DQ, CR, LF] @ '')'')),
          (Some ''list_charges'', Some ''PASS'')] \<and>
   csv_text [(''test_custom_endpoint'', ''a,b'' @ [DQ, CR, LF],
                 ''FAIL (a,b'' @ [DQ, CR, LF] @ '')''),
                (''list_charges'', ''ok'', ''PASS'')]
   = ''Test,Result,Status'' @ [CR, LF] @
     ''test_custom_endpoint,'' @ [DQ] @ ''a,b'' @ [DQ, DQ, CR, LF, DQ] @ '','' @
       [DQ] @ ''FAIL (a,b'' @ [DQ, DQ, CR, LF] @ '')'' @ [DQ, CR, LF] @
     ''list_charges,ok,PASS'' @ [CR, LF]"
proof -
  let ?results = "[(''test_custom_endpoint'',
       PDict [(''status'', PBool False), (''raw_response'', PStr (''a,b'' @ [DQ, CR, LF]))]),
      (''list_charges'', PDict [(''status'', PBool True), (''raw_response'', PStr ''ok'')])]"
  let ?rows = "[(''test_custom_endpoint'', ''a,b'' @ [DQ, CR, LF], ''FAIL (a,b'' @ [DQ, CR, LF] @ '')''),
          (''list_charges'', ''ok'', ''PASS'')]"
  have rows: "csv_data sample_lib ?results = Inr ?rows"
    by (simp add: csv_data_def csv_entry_rows_def dict_has_def dict_get_def dict_get_default_def
          result_str_def)
  have written: "csv_text ?rows = ''Test,Result,Status'' @ [CR, LF] @
     ''test_custom_endpoint,'' @ [DQ] @ ''a,b'' @ [DQ, DQ, CR, LF, DQ] @ '','' @
       [DQ] @ ''FAIL (a,b'' @ [DQ, DQ, CR, LF] @ '')'' @ [DQ, CR, LF] @
     ''list_charges,ok,PASS'' @ [CR, LF]"
    by (simp add: csv_text_def csv_writerow_def fieldnames_def csv_field_def csv_special_def
          CR_def LF_def DQ_def COMMA_def)
  have small: "list_all cells_within_limit ?rows"
    by (simp add: cells_within_limit_def field_limit_def)
  have enc: "utf8_encodable sample_lib (csv_text ?rows)"
    by (simp add: sample_lib_def)
  have "parsed_test_status (csv_text ?rows) = Inr (map (\<lambda>(t, r, s). (Some t, Some s)) ?rows)"
    using report_file_round_trip [where lib = sample_lib and results = ?results
            and output_folder = "''output''" and w = "world_with net_ok"]
      small enc
    unfolding rows by simp
  with rows written small show ?thesis by simp
qed

theorem report_file_long_cell_counterexample:
  "fst (test_custom_endpoint ''sk_test_1'' ''https://example.org/big'' (world_with net_long)) =
     Inr (PDict [(''status'', PBool False), (''raw_response'', PStr long_cell)]) \<and>
   save_results_to_file sample_lib
     [(''test_custom_endpoint'',
       PDict [(''status'', PBool False), (''raw_response'', PStr long_cell)])]
     ''output'' (world_with net_long) =
     (Inr (),
      (world_with net_long)\<lparr>events :=
        [Mkdir ''output'',
         CreateFile ''output'' (output_file_name ''20240101_120000''),
         WriteFile ''output'' (output_file_name ''20240101_120000'')
           (csv_text [(''test_custom_endpoint'', long_cell, ''FAIL ('' @ long_cell @ '')'')]),
         PrintSaved ''output'' (output_file_name ''20240101_120000'')]\<rparr>) \<and>
   parsed_test_status
     (csv_text [(''test_custom_endpoint'', long_cell, ''FAIL ('' @ long_cell @ '')'')]) =
     Inl (Exn CsvError ''field larger than field limit (131072)'')"
proof -
  have probe: "fst (test_custom_endpoint ''sk_test_1'' ''https://example.org/big''
                      (world_with net_long)) =
     Inr (PDict [(''status'', PBool False), (''raw_response'', PStr long_cell)])"
    by (simp add: custom_endpoint_eq world_with_def net_long_def)
  have rows: "csv_data sample_lib
     [(''test_custom_endpoint'',
       PDict [(''status'', PBool False), (''raw_response'', PStr long_cell)])] =
     Inr [(''test_custom_endpoint'', long_cell, ''FAIL ('' @ long_cell @ '')'')]"
    by (simp add: csv_data_def csv_entry_rows_def dict_has_def dict_get_def dict_get_default_def
          result_str_def)
  have save: "save_results_to_file sample_lib
     [(''test_custom_endpoint'',
       PDict [(''status'', PBool False), (''raw_response'', PStr long_cell)])]
     ''output'' (world_with net_long) =
     (Inr (),
      (world_with net_long)\<lparr>events :=
        [Mkdir ''output'',
         CreateFile ''output'' (output_file_name ''20240101_120000''),
         WriteFile ''output'' (output_file_name ''20240101_120000'')
           (csv_text [(''test_custom_endpoint'', long_cell, ''FAIL ('' @ long_cell @ '')'')]),
         PrintSaved ''output'' (output_file_name ''20240101_120000'')]\<rparr>)"
    unfolding save_results_to_file_def rows
    by (simp add: Let_def emit_def world_with_def sample_lib_def)
  have "csv_read parse_reset
          (csv_writerow [''test_custom_endpoint'', long_cell, ''FAIL ('' @ long_cell @ '')''])
        = csv_read (START_FIELD, [], [''test_custom_endpoint''])
            (long_cell @ COMMA # csv_field (''FAIL ('' @ long_cell @ '')'') @ [CR, LF])"
    using read_field_comma [of START_RECORD
            "long_cell @ COMMA # csv_field (''FAIL ('' @ long_cell @ '')'') @ [CR, LF]"
            "''test_custom_endpoint''" "[]"] long_cell_plain long_cell_length
    by (cases long_cell) (simp_all add: csv_writerow_def parse_reset_def csv_field_def field_limit_def)
  also have "\<dots> = Inl field_too_large"
    by (rule read_long_cell) simp
  finally have "csv_reader
          (csv_text [(''test_custom_endpoint'', long_cell, ''FAIL ('' @ long_cell @ '')'')]) =
        Inl field_too_large"
    using read_row [of "''Test''" "''Result''" "[''Status'']"
            "csv_writerow [''test_custom_endpoint'', long_cell, ''FAIL ('' @ long_cell @ '')'']"]
    by (simp add: csv_reader_def csv_text_def fieldnames_def field_limit_def)
  then have "parsed_test_status
     (csv_text [(''test_custom_endpoint'', long_cell, ''FAIL ('' @ long_cell @ '')'')]) =
     Inl (Exn CsvError ''field larger than field limit (131072)'')"
    by (simp add: parsed_test_status_def field_too_large_def)
  with probe save show ?thesis by simp
qed

end
